theory Spec2Isabelle
  imports Main "HOL-Library.Word" "HOL-Library.AList" "HOL-Library.List_Lexorder"
    "HOL-Library.Char_ord"
begin

section \<open>Trust Vault: credential store, wallet lifecycle manager and request router\<close>

text \<open>
  A shallow embedding of the Go packages \<open>storage\<close> (StorageService), \<open>service\<close>
  (WalletService) and \<open>backend\<close> (the path handlers of TrustVaultBackend).

  Conventions of the embedding:
  \<^item> a Go \<open>[]byte\<close> is a list of 8-bit words, a Go \<open>string\<close> a list of characters
    (bytes), \<open>uint32\<close> a 32-bit word, \<open>int\<close> a 64-bit word read as a signed number
    (every build target of the repository is amd64 or arm64);
  \<^item> a Go \<open>error\<close> is a value of \<open>go_error\<close>; a function returning \<open>(T, error)\<close>
    returns \<open>go_error + T\<close>, with \<open>Inl\<close> for the error;
  \<^item> everything outside the process (the key-value backend, the random source) and the
    calls the collaborators receive live in a record \<open>world\<close> that every effectful function
    takes and returns;
  \<^item> the libraries the code calls but does not contain (AES-GCM, JSON, \<open>fmt.Sscanf\<close>) and
    the native Trust Wallet Core are parameters: records of functions;
  \<^item> logger calls have no effect on any result and are left out.
\<close>

subsection \<open>Bytes, errors\<close>

type_synonym byte = "8 word"
type_synonym bytes = "byte list"
type_synonym uint32 = "32 word"
type_synonym go_int = "64 word"
type_synonym time = nat

text \<open>
  The package-level error variables. \<open>errors.Is\<close> compares them by identity, so
  \<open>storage.ErrWalletNotFound\<close> and \<open>service.ErrWalletNotFound\<close> are different values
  although their messages agree.
\<close>

datatype sentinel =
    storage_ErrWalletNotFound
  | storage_ErrWalletExists
  | storage_ErrEncryptionFailed
  | storage_ErrDecryptionFailed
  | service_ErrWalletNotFound
  | service_ErrWalletExists
  | service_ErrInvalidCoinType
  | service_ErrInvalidMnemonic
  | service_ErrInvalidTxData
  | service_ErrSigningFailed
  | service_ErrInvalidWalletName
  | wallet_ErrInvalidMnemonic
  | wallet_ErrInvalidCoinType
  | wallet_ErrKeyGenerationFailed
  | wallet_ErrSigningFailed
  | wallet_ErrAddressDerivation

text \<open>
  \<open>New msg\<close> is an error made by \<open>errors.New\<close> at the place of use, or an error of a
  library or of the backend (it wraps nothing and is none of the sentinels);
  \<open>Errorf fmt e\<close> is \<open>fmt.Errorf(fmt, e)\<close> with one \<open>%w\<close> verb, wrapping \<open>e\<close>.
\<close>

datatype go_error =
    Sentinel sentinel
  | New string
  | Errorf string go_error

fun errors_Is :: "go_error \<Rightarrow> sentinel \<Rightarrow> bool" where
  "errors_Is (Sentinel s) t = (s = t)"
| "errors_Is (New m) t = False"
| "errors_Is (Errorf f e) t = errors_Is e t"

subsection \<open>encoding/base64, StdEncoding\<close>

text \<open>
  The standard alphabet of RFC 4648 with padding. The encoder works on groups of three
  bytes; the decoder ignores carriage returns and line feeds wherever they stand, requires
  padding, and rejects anything after the padding. The offset a \<open>CorruptInputError\<close>
  carries is dropped: no caller reads it.
\<close>

definition encodeStd :: string where
  "encodeStd = ''ABCDEFGHIJKLMNOPQRSTUVWXYZabcdefghijklmnopqrstuvwxyz0123456789+/''"

definition padChar :: char where
  "padChar = CHR ''=''"

definition encode_char :: "nat \<Rightarrow> char" where
  "encode_char val = encodeStd ! (val mod 64)"

definition decodeMap :: "char \<Rightarrow> nat option" where
  "decodeMap c = map_of (zip encodeStd [0..<64]) c"

fun EncodeToString :: "bytes \<Rightarrow> string" where
  "EncodeToString (a # b # c # rest) =
     (let val = unat a * 65536 + unat b * 256 + unat c
      in [encode_char (val div 262144), encode_char (val div 4096),
          encode_char (val div 64), encode_char val]) @ EncodeToString rest"
| "EncodeToString [a, b] =
     (let val = unat a * 65536 + unat b * 256
      in [encode_char (val div 262144), encode_char (val div 4096),
          encode_char (val div 64), padChar])"
| "EncodeToString [a] =
     (let val = unat a * 65536
      in [encode_char (val div 262144), encode_char (val div 4096), padChar, padChar])"
| "EncodeToString [] = []"

definition CorruptInputError :: go_error where
  "CorruptInputError = New ''illegal base64 data''"

fun decode_quanta :: "string \<Rightarrow> go_error + bytes" where
  "decode_quanta [] = Inr []"
| "decode_quanta (c0 # c1 # c2 # c3 # rest) =
     (case decodeMap c0 of
        None \<Rightarrow> Inl CorruptInputError
      | Some s0 \<Rightarrow>
     (case decodeMap c1 of
        None \<Rightarrow> Inl CorruptInputError
      | Some s1 \<Rightarrow>
     (case decodeMap c2 of
        None \<Rightarrow>
          (if c2 = padChar \<and> c3 = padChar \<and> rest = []
           then (let val = s0 * 262144 + s1 * 4096
                 in Inr [of_nat (val div 65536)])
           else Inl CorruptInputError)
      | Some s2 \<Rightarrow>
     (case decodeMap c3 of
        None \<Rightarrow>
          (if c3 = padChar \<and> rest = []
           then (let val = s0 * 262144 + s1 * 4096 + s2 * 64
                 in Inr [of_nat (val div 65536), of_nat (val div 256)])
           else Inl CorruptInputError)
      | Some s3 \<Rightarrow>
          (let val = s0 * 262144 + s1 * 4096 + s2 * 64 + s3
           in case decode_quanta rest of
                Inl e \<Rightarrow> Inl e
              | Inr out \<Rightarrow>
                  Inr (of_nat (val div 65536) # of_nat (val div 256) # of_nat val # out))))))"
| "decode_quanta cs = Inl CorruptInputError"

definition DecodeString :: "string \<Rightarrow> go_error + bytes" where
  "DecodeString s =
     decode_quanta (filter (\<lambda>c. c \<noteq> CHR 0x0A \<and> c \<noteq> CHR 0x0D) s)"


subsection \<open>encoding/hex, conversions between strings and bytes\<close>

definition hextable :: string where
  "hextable = ''0123456789abcdef''"

definition hex_EncodeToString :: "bytes \<Rightarrow> string" where
  "hex_EncodeToString src =
     concat (map (\<lambda>v. [hextable ! (unat v div 16), hextable ! (unat v mod 16)]) src)"

definition bytes_of_string :: "string \<Rightarrow> bytes" where
  "bytes_of_string s = map (\<lambda>c. of_nat (of_char c)) s"

definition string_of_bytes :: "bytes \<Rightarrow> string" where
  "string_of_bytes bs = map (\<lambda>b. char_of (unat b)) bs"

subsection \<open>package storage: the records\<close>

record Wallet =
  Name :: string
  CoinType :: uint32
  Mnemonic :: string
  PrivateKey :: bytes
  PublicKey :: string
  Address :: string
  CreatedAt :: time

record encryptedWallet =
  enc_Name :: string
  enc_CoinType :: uint32
  MnemonicEncrypted :: string
  PrivateKeyEncrypted :: string
  enc_PublicKey :: string
  enc_Address :: string
  enc_CreatedAt :: time

record StorageService =
  encryptionKey :: bytes

subsection \<open>The libraries and the world\<close>

text \<open>
  \<open>gcm_Seal key nonce plaintext\<close> is the ciphertext followed by the tag that AES-GCM
  produces, \<open>gcm_Open key nonce ciphertext\<close> the plaintext, or \<open>None\<close> when the tag
  does not verify. \<open>json_Marshal\<close> and \<open>json_Unmarshal\<close> are \<open>encoding/json\<close> on
  \<open>encryptedWallet\<close>; \<open>Sscanf_d\<close> is \<open>fmt.Sscanf(s, "%d", &v)\<close> for a \<open>uint32\<close>.
\<close>

record libs =
  gcm_Seal :: "bytes \<Rightarrow> bytes \<Rightarrow> bytes \<Rightarrow> bytes"
  gcm_Open :: "bytes \<Rightarrow> bytes \<Rightarrow> bytes \<Rightarrow> bytes option"
  json_Marshal :: "encryptedWallet \<Rightarrow> string option"
  json_Unmarshal :: "string \<Rightarrow> encryptedWallet option"
  Sscanf_d :: "string \<Rightarrow> uint32 option"

text \<open>The calls that the collaborators receive, in the order they are made.\<close>

datatype call =
    BackendGet string
  | BackendPut string string
  | BackendDelete string
  | BackendList string
  | GcmSeal
  | GcmOpen
  | ProviderGenerateWallet
  | ProviderImportWallet
  | ProviderDeriveAddress
  | ProviderSignTransaction

text \<open>
  \<open>kv\<close> holds the entries of the key-value backend (\<open>logical.Storage\<close>); \<open>faults\<close>
  is what the backend will answer to its next calls: \<open>Some msg\<close> makes the call fail
  with that message, \<open>None\<close> (or an exhausted list) lets it through; \<open>entropy\<close> holds
  the bytes \<open>rand.Reader\<close> will deliver; \<open>clock\<close> is \<open>time.Now().UTC()\<close>; \<open>journal\<close>
  records the calls made.
\<close>

record world =
  kv :: "(string \<times> string) list"
  faults :: "string option list"
  entropy :: bytes
  clock :: time
  journal :: "call list"

definition record_call :: "call \<Rightarrow> world \<Rightarrow> world" where
  "record_call c w = w\<lparr>journal := journal w @ [c]\<rparr>"

definition next_fault :: "world \<Rightarrow> string option \<times> world" where
  "next_fault w =
     (case faults w of
        [] \<Rightarrow> (None, w)
      | f # fs \<Rightarrow> (f, w\<lparr>faults := fs\<rparr>))"

definition backend_Get :: "string \<Rightarrow> world \<Rightarrow> (go_error + string option) \<times> world" where
  "backend_Get key w =
     (case next_fault (record_call (BackendGet key) w) of
        (Some msg, w1) \<Rightarrow> (Inl (New msg), w1)
      | (None, w1) \<Rightarrow> (Inr (map_of (kv w1) key), w1))"

definition backend_Put :: "string \<Rightarrow> string \<Rightarrow> world \<Rightarrow> go_error option \<times> world" where
  "backend_Put key v w =
     (case next_fault (record_call (BackendPut key v) w) of
        (Some msg, w1) \<Rightarrow> (Some (New msg), w1)
      | (None, w1) \<Rightarrow> (None, w1\<lparr>kv := AList.update key v (kv w1)\<rparr>))"

definition backend_Delete :: "string \<Rightarrow> world \<Rightarrow> go_error option \<times> world" where
  "backend_Delete key w =
     (case next_fault (record_call (BackendDelete key) w) of
        (Some msg, w1) \<Rightarrow> (Some (New msg), w1)
      | (None, w1) \<Rightarrow> (None, w1\<lparr>kv := AList.delete key (kv w1)\<rparr>))"

text \<open>
  \<open>List\<close> answers with the keys below the prefix, the prefix removed, a deeper key cut
  after its first slash, in lexicographic order.
\<close>

definition list_entry :: "string \<Rightarrow> string" where
  "list_entry suffix =
     (if CHR ''/'' \<in> set suffix then takeWhile (\<lambda>c. c \<noteq> CHR ''/'') suffix @ ''/'' else suffix)"

definition backend_List :: "string \<Rightarrow> world \<Rightarrow> (go_error + string list) \<times> world" where
  "backend_List prefix w =
     (case next_fault (record_call (BackendList prefix) w) of
        (Some msg, w1) \<Rightarrow> (Inl (New msg), w1)
      | (None, w1) \<Rightarrow>
          (Inr (sort (remdups (map (\<lambda>k. list_entry (drop (length prefix) k))
                  (filter (\<lambda>k. take (length prefix) k = prefix) (map fst (kv w1)))))), w1))"

text \<open>
  \<open>io.ReadFull(rand.Reader, buf)\<close> for a buffer of \<open>n\<close> bytes: all of them, or an error.
\<close>

definition rand_ReadFull :: "nat \<Rightarrow> world \<Rightarrow> (go_error + bytes) \<times> world" where
  "rand_ReadFull n w =
     (if n \<le> length (entropy w)
      then (Inr (take n (entropy w)), w\<lparr>entropy := drop n (entropy w)\<rparr>)
      else (Inl (New ''unexpected EOF''), w\<lparr>entropy := []\<rparr>))"

text \<open>
  \<open>aes.NewCipher\<close> accepts keys of 16, 24 and 32 bytes; the block it returns is
  represented by its key. \<open>cipher.NewGCM\<close> accepts every block of 16 bytes, which an
  AES block is. The nonce of the standard GCM has 12 bytes.
\<close>

definition aes_NewCipher :: "bytes \<Rightarrow> go_error + bytes" where
  "aes_NewCipher key =
     (if length key = 16 \<or> length key = 24 \<or> length key = 32 then Inr key
      else Inl (New ''crypto/aes: invalid key size''))"

definition cipher_NewGCM :: "bytes \<Rightarrow> go_error + bytes" where
  "cipher_NewGCM block = Inr block"

definition NonceSize :: nat where
  "NonceSize = 12"

text \<open>\<open>gcm.Seal(dst, nonce, plaintext, nil)\<close> appends the sealed text to \<open>dst\<close>.\<close>

definition Seal :: "libs \<Rightarrow> bytes \<Rightarrow> bytes \<Rightarrow> bytes \<Rightarrow> bytes \<Rightarrow> bytes" where
  "Seal L gcm dst nonce plaintext = dst @ gcm_Seal L gcm nonce plaintext"

definition Open :: "libs \<Rightarrow> bytes \<Rightarrow> bytes \<Rightarrow> bytes \<Rightarrow> go_error + bytes" where
  "Open L gcm nonce ciphertext =
     (case gcm_Open L gcm nonce ciphertext of
        None \<Rightarrow> Inl (New ''cipher: message authentication failed'')
      | Some plaintext \<Rightarrow> Inr plaintext)"

subsection \<open>package storage: StorageService\<close>

definition encrypt ::
  "libs \<Rightarrow> StorageService \<Rightarrow> bytes \<Rightarrow> world \<Rightarrow> (go_error + string) \<times> world" where
  "encrypt L ss plaintext w =
     (case aes_NewCipher (encryptionKey ss) of
        Inl err \<Rightarrow> (Inl err, w)
      | Inr block \<Rightarrow>
     (case cipher_NewGCM block of
        Inl err \<Rightarrow> (Inl err, w)
      | Inr gcm \<Rightarrow>
     (case rand_ReadFull NonceSize w of
        (Inl err, w1) \<Rightarrow> (Inl err, w1)
      | (Inr nonce, w1) \<Rightarrow>
          (let ciphertext = Seal L gcm nonce nonce plaintext
           in (Inr (EncodeToString ciphertext), record_call GcmSeal w1)))))"

definition decrypt ::
  "libs \<Rightarrow> StorageService \<Rightarrow> string \<Rightarrow> world \<Rightarrow> (go_error + bytes) \<times> world" where
  "decrypt L ss ciphertext w =
     (case DecodeString ciphertext of
        Inl err \<Rightarrow> (Inl err, w)
      | Inr data \<Rightarrow>
     (case aes_NewCipher (encryptionKey ss) of
        Inl err \<Rightarrow> (Inl err, w)
      | Inr block \<Rightarrow>
     (case cipher_NewGCM block of
        Inl err \<Rightarrow> (Inl err, w)
      | Inr gcm \<Rightarrow>
          (let nonceSize = NonceSize
           in if length data < nonceSize then (Inl (New ''ciphertext too short''), w)
              else (let nonce = take nonceSize data;
                        ciphertextBytes = drop nonceSize data
                    in case Open L gcm nonce ciphertextBytes of
                         Inl err \<Rightarrow> (Inl err, record_call GcmOpen w)
                       | Inr plaintext \<Rightarrow> (Inr plaintext, record_call GcmOpen w))))))"

definition encryptWallet ::
  "libs \<Rightarrow> StorageService \<Rightarrow> Wallet \<Rightarrow> world \<Rightarrow> (go_error + encryptedWallet) \<times> world" where
  "encryptWallet L ss wallet w =
     (case encrypt L ss (bytes_of_string (Mnemonic wallet)) w of
        (Inl err, w1) \<Rightarrow>
          (Inl (Errorf ''%w: failed to encrypt mnemonic'' (Sentinel storage_ErrEncryptionFailed)), w1)
      | (Inr mnemonicEncrypted, w1) \<Rightarrow>
     (case encrypt L ss (PrivateKey wallet) w1 of
        (Inl err, w2) \<Rightarrow>
          (Inl (Errorf ''%w: failed to encrypt private key''
                  (Sentinel storage_ErrEncryptionFailed)), w2)
      | (Inr privateKeyEncrypted, w2) \<Rightarrow>
          (Inr \<lparr>enc_Name = Name wallet,
                enc_CoinType = CoinType wallet,
                MnemonicEncrypted = mnemonicEncrypted,
                PrivateKeyEncrypted = privateKeyEncrypted,
                enc_PublicKey = PublicKey wallet,
                enc_Address = Address wallet,
                enc_CreatedAt = CreatedAt wallet\<rparr>, w2)))"

definition decryptWallet ::
  "libs \<Rightarrow> StorageService \<Rightarrow> encryptedWallet \<Rightarrow> world \<Rightarrow> (go_error + Wallet) \<times> world" where
  "decryptWallet L ss encrypted w =
     (case decrypt L ss (MnemonicEncrypted encrypted) w of
        (Inl err, w1) \<Rightarrow>
          (Inl (Errorf ''%w: failed to decrypt mnemonic'' (Sentinel storage_ErrDecryptionFailed)), w1)
      | (Inr mnemonicBytes, w1) \<Rightarrow>
     (case decrypt L ss (PrivateKeyEncrypted encrypted) w1 of
        (Inl err, w2) \<Rightarrow>
          (Inl (Errorf ''%w: failed to decrypt private key''
                  (Sentinel storage_ErrDecryptionFailed)), w2)
      | (Inr privateKey, w2) \<Rightarrow>
          (Inr \<lparr>Name = enc_Name encrypted,
                CoinType = enc_CoinType encrypted,
                Mnemonic = string_of_bytes mnemonicBytes,
                PrivateKey = privateKey,
                PublicKey = enc_PublicKey encrypted,
                Address = enc_Address encrypted,
                CreatedAt = enc_CreatedAt encrypted\<rparr>, w2)))"

text \<open>
  \<open>StoreWallet\<close> takes a pointer, which may be nil: \<open>None\<close>. It returns an \<open>error\<close>:
  \<open>None\<close> is nil.
\<close>

definition StorageService_StoreWallet ::
  "libs \<Rightarrow> StorageService \<Rightarrow> Wallet option \<Rightarrow> world \<Rightarrow> go_error option \<times> world" where
  "StorageService_StoreWallet L ss wallet_ptr w =
     (case wallet_ptr of
        None \<Rightarrow> (Some (New ''wallet cannot be nil''), w)
      | Some wallet \<Rightarrow>
     (case backend_Get (''wallets/'' @ Name wallet) w of
        (Inl err, w1) \<Rightarrow> (Some (Errorf ''failed to check wallet existence: %w'' err), w1)
      | (Inr (Some existing), w1) \<Rightarrow> (Some (Sentinel storage_ErrWalletExists), w1)
      | (Inr None, w1) \<Rightarrow>
     (case encryptWallet L ss wallet w1 of
        (Inl err, w2) \<Rightarrow> (Some (Errorf ''failed to encrypt wallet: %w'' err), w2)
      | (Inr encrypted, w2) \<Rightarrow>
     (case json_Marshal L encrypted of
        None \<Rightarrow>
          (Some (Errorf ''failed to create storage entry: %w'' (New ''json: error'')), w2)
      | Some entry \<Rightarrow>
     (case backend_Put (''wallets/'' @ Name wallet) entry w2 of
        (Some err, w3) \<Rightarrow> (Some (Errorf ''failed to store wallet: %w'' err), w3)
      | (None, w3) \<Rightarrow> (None, w3))))))"

definition StorageService_GetWallet ::
  "libs \<Rightarrow> StorageService \<Rightarrow> string \<Rightarrow> world \<Rightarrow> (go_error + Wallet) \<times> world" where
  "StorageService_GetWallet L ss name w =
     (if name = [] then (Inl (New ''wallet name cannot be empty''), w)
      else
     (case backend_Get (''wallets/'' @ name) w of
        (Inl err, w1) \<Rightarrow> (Inl (Errorf ''failed to retrieve wallet: %w'' err), w1)
      | (Inr None, w1) \<Rightarrow> (Inl (Sentinel storage_ErrWalletNotFound), w1)
      | (Inr (Some entry), w1) \<Rightarrow>
     (case json_Unmarshal L entry of
        None \<Rightarrow> (Inl (Errorf ''failed to decode wallet: %w'' (New ''json: error'')), w1)
      | Some encrypted \<Rightarrow>
     (case decryptWallet L ss encrypted w1 of
        (Inl err, w2) \<Rightarrow> (Inl (Errorf ''failed to decrypt wallet: %w'' err), w2)
      | (Inr wallet, w2) \<Rightarrow> (Inr wallet, w2)))))"

definition StorageService_DeleteWallet ::
  "StorageService \<Rightarrow> string \<Rightarrow> world \<Rightarrow> go_error option \<times> world" where
  "StorageService_DeleteWallet ss name w =
     (if name = [] then (Some (New ''wallet name cannot be empty''), w)
      else
     (case backend_Get (''wallets/'' @ name) w of
        (Inl err, w1) \<Rightarrow> (Some (Errorf ''failed to check wallet existence: %w'' err), w1)
      | (Inr None, w1) \<Rightarrow> (Some (Sentinel storage_ErrWalletNotFound), w1)
      | (Inr (Some entry), w1) \<Rightarrow>
     (case backend_Delete (''wallets/'' @ name) w1 of
        (Some err, w2) \<Rightarrow> (Some (Errorf ''failed to delete wallet: %w'' err), w2)
      | (None, w2) \<Rightarrow> (None, w2))))"

text \<open>
  A function whose slice expression can be out of range either returns or panics.
  \<open>slice s lo hi\<close> is \<open>s[lo:hi]\<close> on a slice whose capacity is its length.
\<close>

datatype 'a go = Returns 'a | Panics string

definition slice :: "'a list \<Rightarrow> int \<Rightarrow> int \<Rightarrow> 'a list go" where
  "slice s lo hi =
     (if 0 \<le> lo \<and> lo \<le> hi \<and> hi \<le> int (length s)
      then Returns (take (nat (hi - lo)) (drop (nat lo) s))
      else Panics ''runtime error: slice bounds out of range'')"

definition len :: "'a list \<Rightarrow> go_int" where
  "len s = of_nat (length s)"

definition StorageService_ListWallets ::
  "StorageService \<Rightarrow> go_int \<Rightarrow> go_int \<Rightarrow> world \<Rightarrow> (go_error + string list) go \<times> world" where
  "StorageService_ListWallets ss offset limit w =
     (case backend_List ''wallets/'' w of
        (Inl err, w1) \<Rightarrow> (Returns (Inl (Errorf ''failed to list wallets: %w'' err)), w1)
      | (Inr keys, w1) \<Rightarrow>
          (let total = len keys
           in if sint total \<le> sint offset then (Returns (Inr []), w1)
              else (let end0 = offset + limit;
                        end = (if sint limit \<le> 0 \<or> sint total < sint end0 then total else end0)
                    in case slice keys (sint offset) (sint end) of
                         Panics msg \<Rightarrow> (Panics msg, w1)
                       | Returns result \<Rightarrow> (Returns (Inr result), w1))))"

definition StorageService_GetWalletMetadata ::
  "libs \<Rightarrow> StorageService \<Rightarrow> string \<Rightarrow> world \<Rightarrow> (go_error + Wallet) \<times> world" where
  "StorageService_GetWalletMetadata L ss name w =
     (if name = [] then (Inl (New ''wallet name cannot be empty''), w)
      else
     (case backend_Get (''wallets/'' @ name) w of
        (Inl err, w1) \<Rightarrow> (Inl (Errorf ''failed to retrieve wallet: %w'' err), w1)
      | (Inr None, w1) \<Rightarrow> (Inl (Sentinel storage_ErrWalletNotFound), w1)
      | (Inr (Some entry), w1) \<Rightarrow>
     (case json_Unmarshal L entry of
        None \<Rightarrow> (Inl (Errorf ''failed to decode wallet: %w'' (New ''json: error'')), w1)
      | Some encrypted \<Rightarrow>
          (Inr \<lparr>Name = enc_Name encrypted,
                CoinType = enc_CoinType encrypted,
                Mnemonic = [],
                PrivateKey = [],
                PublicKey = enc_PublicKey encrypted,
                Address = enc_Address encrypted,
                CreatedAt = enc_CreatedAt encrypted\<rparr>, w1))))"

subsection \<open>package wallet: the Trust Wallet Core wrapper\<close>

text \<open>
  The methods of \<open>TrustWalletCore\<close> are calls into the native library; each is a function
  of its arguments that answers with a result or an error.
\<close>

record WalletKeys =
  keys_Mnemonic :: string
  keys_PrivateKey :: bytes
  keys_PublicKey :: bytes
  keys_Address :: string

record TrustWalletCore =
  GenerateWallet :: "uint32 \<Rightarrow> go_error + WalletKeys"
  ImportWallet :: "string \<Rightarrow> uint32 \<Rightarrow> go_error + WalletKeys"
  DeriveAddress :: "string \<Rightarrow> uint32 \<Rightarrow> string \<Rightarrow> go_error + string"
  SignTransaction :: "bytes \<Rightarrow> uint32 \<Rightarrow> bytes \<Rightarrow> go_error + bytes"

definition GetPublicKeyHex :: "bytes \<Rightarrow> string" where
  "GetPublicKeyHex publicKey = hex_EncodeToString publicKey"

subsection \<open>package service: WalletService\<close>

record WalletService =
  storage :: StorageService
  trustWallet :: TrustWalletCore

definition WalletService_CreateWallet ::
  "libs \<Rightarrow> WalletService \<Rightarrow> string \<Rightarrow> uint32 \<Rightarrow> string \<Rightarrow> world
     \<Rightarrow> (go_error + Wallet) \<times> world" where
  "WalletService_CreateWallet L ws name coinType mnemonic w =
     (if name = [] then (Inl (Sentinel service_ErrInvalidWalletName), w)
      else
     (case (if mnemonic \<noteq> []
            then (case ImportWallet (trustWallet ws) mnemonic coinType of
                    Inl err \<Rightarrow>
                      (if errors_Is err wallet_ErrInvalidMnemonic
                       then Inl (Sentinel service_ErrInvalidMnemonic)
                       else if errors_Is err wallet_ErrInvalidCoinType
                       then Inl (Sentinel service_ErrInvalidCoinType)
                       else Inl (Errorf ''failed to import wallet: %w'' err))
                  | Inr keys \<Rightarrow> Inr keys,
                  record_call ProviderImportWallet w)
            else (case GenerateWallet (trustWallet ws) coinType of
                    Inl err \<Rightarrow>
                      (if errors_Is err wallet_ErrInvalidCoinType
                       then Inl (Sentinel service_ErrInvalidCoinType)
                       else Inl (Errorf ''failed to generate wallet: %w'' err))
                  | Inr keys \<Rightarrow> Inr keys,
                  record_call ProviderGenerateWallet w)) of
        (Inl err, w1) \<Rightarrow> (Inl err, w1)
      | (Inr keys, w1) \<Rightarrow>
          (let walletObj = \<lparr>Name = name,
                            CoinType = coinType,
                            Mnemonic = keys_Mnemonic keys,
                            PrivateKey = keys_PrivateKey keys,
                            PublicKey = GetPublicKeyHex (keys_PublicKey keys),
                            Address = keys_Address keys,
                            CreatedAt = clock w1\<rparr>
           in case StorageService_StoreWallet L (storage ws) (Some walletObj) w1 of
                (Some err, w2) \<Rightarrow>
                  (if errors_Is err storage_ErrWalletExists
                   then (Inl (Sentinel service_ErrWalletExists), w2)
                   else (Inl (Errorf ''failed to store wallet: %w'' err), w2))
              | (None, w2) \<Rightarrow>
                  (Inr \<lparr>Name = Name walletObj,
                        CoinType = CoinType walletObj,
                        Mnemonic = [],
                        PrivateKey = [],
                        PublicKey = PublicKey walletObj,
                        Address = Address walletObj,
                        CreatedAt = CreatedAt walletObj\<rparr>, w2))))"

definition WalletService_GetWallet ::
  "libs \<Rightarrow> WalletService \<Rightarrow> string \<Rightarrow> world \<Rightarrow> (go_error + Wallet) \<times> world" where
  "WalletService_GetWallet L ws name w =
     (if name = [] then (Inl (Sentinel service_ErrInvalidWalletName), w)
      else
     (case StorageService_GetWalletMetadata L (storage ws) name w of
        (Inl err, w1) \<Rightarrow>
          (if errors_Is err storage_ErrWalletNotFound
           then (Inl (Sentinel service_ErrWalletNotFound), w1)
           else (Inl (Errorf ''failed to retrieve wallet: %w'' err), w1))
      | (Inr walletObj, w1) \<Rightarrow> (Inr walletObj, w1)))"

definition WalletService_DeleteWallet ::
  "WalletService \<Rightarrow> string \<Rightarrow> world \<Rightarrow> go_error option \<times> world" where
  "WalletService_DeleteWallet ws name w =
     (if name = [] then (Some (Sentinel service_ErrInvalidWalletName), w)
      else
     (case StorageService_DeleteWallet (storage ws) name w of
        (Some err, w1) \<Rightarrow>
          (if errors_Is err storage_ErrWalletNotFound
           then (Some (Sentinel service_ErrWalletNotFound), w1)
           else (Some (Errorf ''failed to delete wallet: %w'' err), w1))
      | (None, w1) \<Rightarrow> (None, w1)))"

definition WalletService_ListWallets ::
  "WalletService \<Rightarrow> go_int \<Rightarrow> go_int \<Rightarrow> world \<Rightarrow> (go_error + string list) go \<times> world" where
  "WalletService_ListWallets ws offset limit w =
     (case StorageService_ListWallets (storage ws) offset limit w of
        (Panics msg, w1) \<Rightarrow> (Panics msg, w1)
      | (Returns (Inl err), w1) \<Rightarrow> (Returns (Inl (Errorf ''failed to list wallets: %w'' err)), w1)
      | (Returns (Inr wallets), w1) \<Rightarrow> (Returns (Inr wallets), w1))"

text \<open>
  The deferred functions of \<open>SignTransaction\<close> and \<open>GetAddress\<close> write to the record
  that \<open>walletObj\<close> points to. \<open>clear_PrivateKey\<close> is the loop
  \<open>for i := range walletObj.PrivateKey { walletObj.PrivateKey[i] = 0 }\<close>.
\<close>

definition clear_PrivateKey :: "bytes \<Rightarrow> bytes" where
  "clear_PrivateKey buf = fold (\<lambda>i b. b[i := 0]) [0..<length buf] buf"

definition SignTransaction_deferred :: "Wallet \<Rightarrow> Wallet" where
  "SignTransaction_deferred walletObj =
     (let w1 = walletObj\<lparr>PrivateKey := clear_PrivateKey (PrivateKey walletObj)\<rparr>
      in w1\<lparr>Mnemonic := []\<rparr>)"

definition GetAddress_deferred :: "Wallet \<Rightarrow> Wallet" where
  "GetAddress_deferred walletObj =
     (let w1 = walletObj\<lparr>Mnemonic := []\<rparr>
      in w1\<lparr>PrivateKey := clear_PrivateKey (PrivateKey w1)\<rparr>)"

text \<open>
  Both functions return, next to their result, the record \<open>walletObj\<close> points to as it
  is when the function has returned: \<open>None\<close> when the function returned before it
  obtained one, otherwise the record after the deferred function has run.
\<close>

definition WalletService_SignTransaction ::
  "libs \<Rightarrow> WalletService \<Rightarrow> string \<Rightarrow> bytes \<Rightarrow> world
     \<Rightarrow> ((go_error + bytes) \<times> Wallet option) \<times> world" where
  "WalletService_SignTransaction L ws name txData w =
     (if name = [] then ((Inl (Sentinel service_ErrInvalidWalletName), None), w)
      else if length txData = 0 then ((Inl (Sentinel service_ErrInvalidTxData), None), w)
      else
     (case StorageService_GetWallet L (storage ws) name w of
        (Inl err, w1) \<Rightarrow>
          (if errors_Is err storage_ErrWalletNotFound
           then ((Inl (Sentinel service_ErrWalletNotFound), None), w1)
           else ((Inl (Errorf ''failed to retrieve wallet: %w'' err), None), w1))
      | (Inr walletObj, w1) \<Rightarrow>
          (let w2 = record_call ProviderSignTransaction w1;
               result =
                 (case SignTransaction (trustWallet ws) (PrivateKey walletObj)
                         (CoinType walletObj) txData of
                    Inl err \<Rightarrow>
                      (if errors_Is err wallet_ErrSigningFailed
                       then Inl (Sentinel service_ErrSigningFailed)
                       else if errors_Is err wallet_ErrInvalidCoinType
                       then Inl (Sentinel service_ErrInvalidCoinType)
                       else Inl (Errorf ''failed to sign transaction: %w'' err))
                  | Inr signature \<Rightarrow> Inr signature)
           in ((result, Some (SignTransaction_deferred walletObj)), w2))))"

definition WalletService_GetAddress ::
  "libs \<Rightarrow> WalletService \<Rightarrow> string \<Rightarrow> uint32 \<Rightarrow> string \<Rightarrow> world
     \<Rightarrow> ((go_error + string) \<times> Wallet option) \<times> world" where
  "WalletService_GetAddress L ws name coinType derivationPath w =
     (if name = [] then ((Inl (Sentinel service_ErrInvalidWalletName), None), w)
      else
     (case StorageService_GetWallet L (storage ws) name w of
        (Inl err, w1) \<Rightarrow>
          (if errors_Is err storage_ErrWalletNotFound
           then ((Inl (Sentinel service_ErrWalletNotFound), None), w1)
           else ((Inl (Errorf ''failed to retrieve wallet: %w'' err), None), w1))
      | (Inr walletObj, w1) \<Rightarrow>
          (let w2 = record_call ProviderDeriveAddress w1;
               result =
                 (case DeriveAddress (trustWallet ws) (Mnemonic walletObj) coinType
                         derivationPath of
                    Inl err \<Rightarrow>
                      (if errors_Is err wallet_ErrInvalidCoinType
                       then Inl (Sentinel service_ErrInvalidCoinType)
                       else if errors_Is err wallet_ErrAddressDerivation
                       then Inl (Errorf ''address derivation failed: %w'' err)
                       else Inl (Errorf ''failed to derive address: %w'' err))
                  | Inr address \<Rightarrow> Inr address)
           in ((result, Some (GetAddress_deferred walletObj)), w2))))"

subsection \<open>package backend: requests, responses and validation\<close>

text \<open>
  \<open>FieldData\<close> holds the fields of a request as the framework hands them to a handler:
  a string field that is absent reads as the empty string, \<open>offset\<close> and \<open>limit\<close> read
  as their defaults; \<open>coin_type\<close> is read with \<open>GetOk\<close>, so its absence is visible.
\<close>

record FieldData =
  fd_name :: string
  fd_coin_type :: "go_int option"
  fd_mnemonic :: string
  fd_offset :: go_int
  fd_limit :: go_int
  fd_tx_data :: string
  fd_coin :: string
  fd_derivation_path :: string

text \<open>
  A \<open>logical.Response\<close> is its \<open>Data\<close> map, kept as a list of fields. \<open>VTime t\<close> is the
  timestamp \<open>t\<close> in the layout \<open>2006-01-02T15:04:05Z07:00\<close>.
\<close>

datatype val =
    VString string
  | VUint32 uint32
  | VInt int
  | VBool bool
  | VStrings "string list"
  | VTime time

type_synonym Response = "(string \<times> val) list"

definition ErrorResponse :: "string \<Rightarrow> Response" where
  "ErrorResponse text = [(''error'', VString text)]"

definition ListResponse :: "string list \<Rightarrow> Response" where
  "ListResponse keys = (if length keys \<noteq> 0 then [(''keys'', VStrings keys)] else [])"

text \<open>The text of an error, \<open>err.Error()\<close>.\<close>

fun sentinel_text :: "sentinel \<Rightarrow> string" where
  "sentinel_text storage_ErrWalletNotFound = ''wallet not found''"
| "sentinel_text storage_ErrWalletExists = ''wallet already exists''"
| "sentinel_text storage_ErrEncryptionFailed = ''encryption failed''"
| "sentinel_text storage_ErrDecryptionFailed = ''decryption failed''"
| "sentinel_text service_ErrWalletNotFound = ''wallet not found''"
| "sentinel_text service_ErrWalletExists = ''wallet already exists''"
| "sentinel_text service_ErrInvalidCoinType = ''invalid coin type''"
| "sentinel_text service_ErrInvalidMnemonic = ''invalid mnemonic phrase''"
| "sentinel_text service_ErrInvalidTxData = ''invalid transaction data''"
| "sentinel_text service_ErrSigningFailed = ''transaction signing failed''"
| "sentinel_text service_ErrInvalidWalletName = ''invalid wallet name''"
| "sentinel_text wallet_ErrInvalidMnemonic = ''invalid mnemonic phrase''"
| "sentinel_text wallet_ErrInvalidCoinType = ''invalid coin type''"
| "sentinel_text wallet_ErrKeyGenerationFailed = ''key generation failed''"
| "sentinel_text wallet_ErrSigningFailed = ''transaction signing failed''"
| "sentinel_text wallet_ErrAddressDerivation = ''address derivation failed''"

fun format_w :: "string \<Rightarrow> string \<Rightarrow> string" where
  "format_w (c # d # rest) arg =
     (if c = CHR ''%'' \<and> d = CHR ''w'' then arg @ rest else c # format_w (d # rest) arg)"
| "format_w cs arg = cs"

fun Error :: "go_error \<Rightarrow> string" where
  "Error (Sentinel s) = sentinel_text s"
| "Error (New msg) = msg"
| "Error (Errorf f e) = format_w f (Error e)"

fun decimal :: "nat \<Rightarrow> string" where
  "decimal n =
     (if n < 10 then [char_of (48 + n)] else decimal (n div 10) @ [char_of (48 + n mod 10)])"

definition strings_Contains :: "string \<Rightarrow> string \<Rightarrow> bool" where
  "strings_Contains s substr =
     list_ex (\<lambda>i. take (length substr) (drop i s) = substr) [0..<Suc (length s)]"

definition strings_HasPrefix :: "string \<Rightarrow> string \<Rightarrow> bool" where
  "strings_HasPrefix s pre = (take (length pre) s = pre)"

text \<open>
  The loops over the runes of a name or of a path stop at the first rune that is refused.
  Every refused or accepted rune below 128 is one byte, and a byte from 128 on belongs to
  a rune that is neither a control character nor a character of a derivation path, so the
  loops are written over the bytes. The message of \<open>validateDerivationPath\<close> leaves out
  the refused character.
\<close>

definition validateWalletName :: "string \<Rightarrow> go_error option" where
  "validateWalletName name =
     (if name = [] then Some (New ''wallet name is required'')
      else if 255 < length name
      then Some (New ''wallet name exceeds maximum length of 255 characters'')
      else if strings_Contains name ''..'' \<or> strings_Contains name ''/''
              \<or> strings_Contains name [CHR 0x5C]
      then Some (New ''wallet name contains invalid characters'')
      else if list_ex (\<lambda>r. (of_char r :: nat) < 32 \<or> (of_char r :: nat) = 127) name
      then Some (New ''wallet name contains invalid control characters'')
      else None)"

definition validateCoinType :: "uint32 \<Rightarrow> go_error option" where
  "validateCoinType coinType =
     (if \<not> (coinType = 0 \<or> coinType = 60 \<or> coinType = 501)
      then Some (New (''unsupported coin type: '' @ decimal (unat coinType)
                      @ '' (supported: 0=Bitcoin, 60=Ethereum, 501=Solana)''))
      else None)"

definition validateDerivationPath :: "string \<Rightarrow> go_error option" where
  "validateDerivationPath path =
     (if path = [] then None
      else if 100 < length path
      then Some (New ''derivation path exceeds maximum length of 100 characters'')
      else if \<not> strings_HasPrefix path ''m/''
      then Some (New (''derivation path must start with 'm/'' @ [CHR 0x27]))
      else if list_ex (\<lambda>r. \<not> ((CHR ''0'' \<le> r \<and> r \<le> CHR ''9'') \<or> r = CHR ''/''
                              \<or> r = CHR 0x27 \<or> r = CHR ''m'')) path
      then Some (New ''derivation path contains invalid character'')
      else None)"

text \<open>
  \<open>handleError\<close> and the handlers return \<open>(*logical.Response, error)\<close>: \<open>Inr\<close> a
  response, \<open>Inl\<close> an error and no response.
\<close>

definition handleError :: "go_error \<Rightarrow> go_error + Response" where
  "handleError err =
     (if errors_Is err service_ErrWalletNotFound \<or> errors_Is err storage_ErrWalletNotFound
      then Inr (ErrorResponse ''wallet not found'' @ [(''http_status_code'', VInt 404)])
      else if errors_Is err service_ErrWalletExists \<or> errors_Is err storage_ErrWalletExists
      then Inr (ErrorResponse ''wallet already exists'' @ [(''http_status_code'', VInt 409)])
      else if errors_Is err service_ErrInvalidCoinType
      then Inr (ErrorResponse ''invalid coin type'')
      else if errors_Is err service_ErrInvalidMnemonic
      then Inr (ErrorResponse ''invalid mnemonic phrase'')
      else if errors_Is err service_ErrInvalidTxData
      then Inr (ErrorResponse ''invalid transaction data'')
      else if errors_Is err service_ErrSigningFailed
      then Inr (ErrorResponse ''transaction signing failed'')
      else if errors_Is err service_ErrInvalidWalletName
      then Inr (ErrorResponse ''invalid wallet name'')
      else Inl (Errorf ''internal error: %w'' err))"

subsection \<open>package backend: the handlers\<close>

record TrustVaultBackend =
  walletService :: WalletService

definition handleWalletCreate ::
  "libs \<Rightarrow> TrustVaultBackend \<Rightarrow> FieldData \<Rightarrow> world \<Rightarrow> (go_error + Response) \<times> world" where
  "handleWalletCreate L b data w =
     (let name = fd_name data
      in case validateWalletName name of
           Some err \<Rightarrow> (Inr (ErrorResponse (Error err)), w)
         | None \<Rightarrow>
        (case fd_coin_type data of
           None \<Rightarrow> (Inr (ErrorResponse ''coin_type is required''), w)
         | Some coinTypeRaw \<Rightarrow>
        (let coinType = (ucast coinTypeRaw :: uint32)
         in case validateCoinType coinType of
              Some err \<Rightarrow> (Inr (ErrorResponse (Error err)), w)
            | None \<Rightarrow>
           (let mnemonic = fd_mnemonic data
            in case WalletService_CreateWallet L (walletService b) name coinType mnemonic w of
                 (Inl err, w1) \<Rightarrow> (handleError err, w1)
               | (Inr wallet, w1) \<Rightarrow>
                   (Inr [(''name'', VString (Name wallet)),
                         (''coin_type'', VUint32 (CoinType wallet)),
                         (''address'', VString (Address wallet)),
                         (''public_key'', VString (PublicKey wallet)),
                         (''created_at'', VTime (CreatedAt wallet))], w1)))))"

definition handleWalletRead ::
  "libs \<Rightarrow> TrustVaultBackend \<Rightarrow> FieldData \<Rightarrow> world \<Rightarrow> (go_error + Response) \<times> world" where
  "handleWalletRead L b data w =
     (let name = fd_name data
      in case validateWalletName name of
           Some err \<Rightarrow> (Inr (ErrorResponse (Error err)), w)
         | None \<Rightarrow>
        (case WalletService_GetWallet L (walletService b) name w of
           (Inl err, w1) \<Rightarrow> (handleError err, w1)
         | (Inr wallet, w1) \<Rightarrow>
             (Inr [(''name'', VString (Name wallet)),
                   (''coin_type'', VUint32 (CoinType wallet)),
                   (''address'', VString (Address wallet)),
                   (''public_key'', VString (PublicKey wallet)),
                   (''created_at'', VTime (CreatedAt wallet))], w1)))"

definition handleWalletDelete ::
  "TrustVaultBackend \<Rightarrow> FieldData \<Rightarrow> world \<Rightarrow> (go_error + Response) \<times> world" where
  "handleWalletDelete b data w =
     (let name = fd_name data
      in case validateWalletName name of
           Some err \<Rightarrow> (Inr (ErrorResponse (Error err)), w)
         | None \<Rightarrow>
        (case WalletService_DeleteWallet (walletService b) name w of
           (Some err, w1) \<Rightarrow> (handleError err, w1)
         | (None, w1) \<Rightarrow> (Inr [(''deleted'', VBool True)], w1)))"

definition handleWalletList ::
  "TrustVaultBackend \<Rightarrow> FieldData \<Rightarrow> world \<Rightarrow> (go_error + Response) go \<times> world" where
  "handleWalletList b data w =
     (let offset = fd_offset data;
          limit = fd_limit data
      in if sint offset < 0
         then (Returns (Inr (ErrorResponse ''offset must be non-negative'')), w)
         else if sint limit < 0
         then (Returns (Inr (ErrorResponse ''limit must be non-negative'')), w)
         else
        (case WalletService_ListWallets (walletService b) offset limit w of
           (Panics msg, w1) \<Rightarrow> (Panics msg, w1)
         | (Returns (Inl err), w1) \<Rightarrow> (Returns (handleError err), w1)
         | (Returns (Inr wallets), w1) \<Rightarrow> (Returns (Inr (ListResponse wallets)), w1)))"

definition handleWalletSign ::
  "libs \<Rightarrow> TrustVaultBackend \<Rightarrow> FieldData \<Rightarrow> world \<Rightarrow> (go_error + Response) \<times> world" where
  "handleWalletSign L b data w =
     (let name = fd_name data
      in case validateWalletName name of
           Some err \<Rightarrow> (Inr (ErrorResponse (Error err)), w)
         | None \<Rightarrow>
        (let txDataEncoded = fd_tx_data data
         in if txDataEncoded = [] then (Inr (ErrorResponse ''tx_data is required''), w)
            else if 1024 * 1024 < length txDataEncoded
            then (Inr (ErrorResponse ''transaction data exceeds maximum size of 1MB''), w)
            else
           (case DecodeString txDataEncoded of
              Inl err \<Rightarrow> (Inr (ErrorResponse ''invalid tx_data: must be base64-encoded''), w)
            | Inr txData \<Rightarrow>
                (if length txData = 0
                 then (Inr (ErrorResponse ''transaction data cannot be empty''), w)
                 else
                (case WalletService_SignTransaction L (walletService b) name txData w of
                   ((Inl err, walletObj), w1) \<Rightarrow> (handleError err, w1)
                 | ((Inr signature, walletObj), w1) \<Rightarrow>
                     (Inr [(''signed_tx'', VString (EncodeToString signature))], w1))))))"

definition handleWalletAddress ::
  "libs \<Rightarrow> TrustVaultBackend \<Rightarrow> FieldData \<Rightarrow> world \<Rightarrow> (go_error + Response) \<times> world" where
  "handleWalletAddress L b data w =
     (let name = fd_name data
      in case validateWalletName name of
           Some err \<Rightarrow> (Inr (ErrorResponse (Error err)), w)
         | None \<Rightarrow>
        (let coinStr = fd_coin data
         in if coinStr = [] then (Inr (ErrorResponse ''coin type is required''), w)
            else
           (case Sscanf_d L coinStr of
              None \<Rightarrow> (Inr (ErrorResponse ''invalid coin type: must be a number''), w)
            | Some coinType \<Rightarrow>
           (case validateCoinType coinType of
              Some err \<Rightarrow> (Inr (ErrorResponse (Error err)), w)
            | None \<Rightarrow>
           (let derivationPath = fd_derivation_path data
            in case (if derivationPath \<noteq> [] then validateDerivationPath derivationPath
                     else None) of
                 Some err \<Rightarrow> (Inr (ErrorResponse (Error err)), w)
               | None \<Rightarrow>
              (case WalletService_GetAddress L (walletService b) name coinType derivationPath w of
                 ((Inl err, walletObj), w1) \<Rightarrow> (handleError err, w1)
               | ((Inr address, walletObj), w1) \<Rightarrow>
                   (Inr [(''address'', VString address),
                         (''coin_type'', VUint32 coinType)], w1)))))))"

subsection \<open>Test doubles\<close>

text \<open>
  Stand-ins for the libraries and for the native wallet core, used to run the functions
  on concrete inputs. The fake AEAD appends a 16-byte checksum as its tag; the fake JSON
  codec knows one document.
\<close>

definition fake_tag :: "bytes \<Rightarrow> bytes \<Rightarrow> bytes \<Rightarrow> bytes" where
  "fake_tag key nonce text = replicate 16 (fold (+) (key @ nonce @ text) 0)"

definition fake_Seal :: "bytes \<Rightarrow> bytes \<Rightarrow> bytes \<Rightarrow> bytes" where
  "fake_Seal key nonce plaintext = plaintext @ fake_tag key nonce plaintext"

definition fake_Open :: "bytes \<Rightarrow> bytes \<Rightarrow> bytes \<Rightarrow> bytes option" where
  "fake_Open key nonce ciphertext =
     (if length ciphertext < 16 then None
      else (let plaintext = take (length ciphertext - 16) ciphertext
            in if drop (length ciphertext - 16) ciphertext = fake_tag key nonce plaintext
               then Some plaintext else None))"

definition test_key :: bytes where
  "test_key = replicate 32 7"

definition test_nonce :: bytes where
  "test_nonce = replicate 12 1"

definition test_ss :: StorageService where
  "test_ss = \<lparr>encryptionKey = test_key\<rparr>"

definition stored_w1 :: encryptedWallet where
  "stored_w1 =
     \<lparr>enc_Name = ''w1'',
      enc_CoinType = 60,
      MnemonicEncrypted = EncodeToString (test_nonce @ fake_Seal test_key test_nonce [109, 110]),
      PrivateKeyEncrypted = EncodeToString (test_nonce @ fake_Seal test_key test_nonce [1, 2, 3]),
      enc_PublicKey = ''04ab'',
      enc_Address = ''0xabc'',
      enc_CreatedAt = 1700000000\<rparr>"

definition tampered_w1 :: encryptedWallet where
  "tampered_w1 =
     stored_w1\<lparr>PrivateKeyEncrypted :=
        EncodeToString (test_nonce @ [9, 2, 3] @ fake_tag test_key test_nonce [1, 2, 3])\<rparr>"

definition fake_Marshal :: "encryptedWallet \<Rightarrow> string option" where
  "fake_Marshal e = Some (''{'' @ enc_Name e @ ''}'')"

definition fake_Unmarshal :: "string \<Rightarrow> encryptedWallet option" where
  "fake_Unmarshal doc =
     (if doc = ''{w1}'' then Some stored_w1
      else if doc = ''{w1 tampered}'' then Some tampered_w1
      else None)"

definition fake_libs :: libs where
  "fake_libs =
     \<lparr>gcm_Seal = fake_Seal,
      gcm_Open = fake_Open,
      json_Marshal = fake_Marshal,
      json_Unmarshal = fake_Unmarshal,
      Sscanf_d = (\<lambda>s. if s = ''60'' then Some 60 else None)\<rparr>"

definition test_keys :: WalletKeys where
  "test_keys =
     \<lparr>keys_Mnemonic = ''mn'',
      keys_PrivateKey = [1, 2, 3],
      keys_PublicKey = [4, 171],
      keys_Address = ''0xabc''\<rparr>"

definition fake_twc :: TrustWalletCore where
  "fake_twc =
     \<lparr>GenerateWallet = (\<lambda>coinType. Inr test_keys),
      ImportWallet = (\<lambda>mnemonic coinType. Inl (Sentinel wallet_ErrInvalidMnemonic)),
      DeriveAddress = (\<lambda>mnemonic coinType path. Inr ''0xabc''),
      SignTransaction = (\<lambda>privateKey coinType txData.
         if length privateKey = 0 then Inl (Sentinel wallet_ErrSigningFailed)
         else Inr (privateKey @ txData))\<rparr>"

definition test_wallet :: Wallet where
  "test_wallet =
     \<lparr>Name = ''w1'', CoinType = 60, Mnemonic = ''mn'', PrivateKey = [1, 2, 3],
      PublicKey = ''04ab'', Address = ''0xabc'', CreatedAt = 1700000000\<rparr>"

definition test_ws :: WalletService where
  "test_ws = \<lparr>storage = test_ss, trustWallet = fake_twc\<rparr>"

definition test_backend :: TrustVaultBackend where
  "test_backend = \<lparr>walletService = test_ws\<rparr>"

definition empty_world :: world where
  "empty_world = \<lparr>kv = [], faults = [], entropy = replicate 24 1, clock = 1700000000, journal = []\<rparr>"

definition world_w1 :: world where
  "world_w1 = empty_world\<lparr>kv := [(''wallets/w1'', ''{w1}'')]\<rparr>"

definition world_tampered :: world where
  "world_tampered = empty_world\<lparr>kv := [(''wallets/w1'', ''{w1 tampered}'')]\<rparr>"

definition world_ab :: world where
  "world_ab = empty_world\<lparr>kv := [(''wallets/a'', ''{a}''), (''wallets/b'', ''{b}'')]\<rparr>"

definition no_fields :: FieldData where
  "no_fields =
     \<lparr>fd_name = [], fd_coin_type = None, fd_mnemonic = [], fd_offset = 0, fd_limit = 100,
      fd_tx_data = [], fd_coin = [], fd_derivation_path = []\<rparr>"

section \<open>Properties\<close>

subsection \<open>base64: decoding inverts encoding, and the decoded length\<close>

lemma decodeMap_encode: "decodeMap (encode_char n) = Some (n mod 64)"
proof -
  have "\<forall>n \<in> set [0..<64]. decodeMap (encodeStd ! n) = Some n"
    by code_simp
  then show ?thesis by (simp add: encode_char_def)
qed

lemma encode_char_plain:
  "encode_char n \<noteq> CHR 0x0A \<and> encode_char n \<noteq> CHR 0x0D \<and> encode_char n \<noteq> padChar"
proof -
  have "\<forall>n \<in> set [0..<64]. encodeStd ! n \<noteq> CHR 0x0A \<and> encodeStd ! n \<noteq> CHR 0x0D \<and> encodeStd ! n \<noteq> padChar"
    by code_simp
  then show ?thesis by (simp add: encode_char_def)
qed

lemma decodeMap_pad: "decodeMap padChar = None"
  by code_simp

lemma padChar_plain: "padChar \<noteq> CHR 0x0A \<and> padChar \<noteq> CHR 0x0D"
  by (simp add: padChar_def)

lemma digits64: fixes v :: nat assumes "v < 16777216"
  shows "(v div 262144) mod 64 * 262144 + (v div 4096) mod 64 * 4096 + (v div 64) mod 64 * 64 + v mod 64 = v"
proof -
  have a: "v div 4096 = (v div 64) div 64" by (simp add: div_mult2_eq)
  have b: "v div 262144 = ((v div 64) div 64) div 64" by (simp add: div_mult2_eq)
  have c: "((v div 64) div 64) div 64 < 64" using assms by (simp add: div_mult2_eq less_mult_imp_div_less)
  define x1 where "x1 = v div 64"
  define x2 where "x2 = x1 div 64"
  define x3 where "x3 = x2 div 64"
  have e1: "v mod 64 + 64 * x1 = v" unfolding x1_def by simp
  have e2: "x1 mod 64 + 64 * x2 = x1" unfolding x2_def by simp
  have e3: "x2 mod 64 + 64 * x3 = x2" unfolding x3_def by simp
  have e4: "x3 mod 64 = x3" using c unfolding x3_def x2_def x1_def by simp
  have "x3 mod 64 * 262144 + x2 mod 64 * 4096 + x1 mod 64 * 64 + v mod 64 = v"
    using e1 e2 e3 e4 by linarith
  then show ?thesis unfolding a b x3_def x2_def x1_def by simp
qed

lemma of_nat_byte: "m mod 256 = unat (b::byte) \<Longrightarrow> (of_nat m :: byte) = b"
proof -
  assume h: "m mod 256 = unat b"
  have "(of_nat m :: byte) = of_nat (m mod 256)"
    by (simp add: word_of_nat_eq_iff take_bit_eq_mod)
  then show ?thesis using h by simp
qed

lemma unat_byte_less: "unat (b::byte) < 256"
  using unsigned_less [of b, where ?'a = nat] by simp

lemma bytes_of_val:
  fixes a b c :: byte
  defines "v \<equiv> unat a * 65536 + unat b * 256 + unat c"
  shows "(of_nat (v div 65536) :: byte) = a" "(of_nat (v div 256) :: byte) = b" "(of_nat v :: byte) = c"
    "v < 16777216"
proof -
  note la = unat_byte_less [of a] and lb = unat_byte_less [of b] and lc = unat_byte_less [of c]
  have d1: "v div 65536 = unat a" using lb lc unfolding v_def by simp
  have d2: "v div 256 = unat a * 256 + unat b" using lc unfolding v_def by simp
  show "(of_nat (v div 65536) :: byte) = a" by (simp add: d1)
  have "(unat a * 256 + unat b) mod 256 = unat b" using lb by simp
  then show "(of_nat (v div 256) :: byte) = b" unfolding d2 by (rule of_nat_byte)
  have "v = (unat a * 256 + unat b) * 256 + unat c" unfolding v_def by simp
  then have "v mod 256 = unat c" using lc by (simp only: mod_mult_self3 mod_less)
  then show "(of_nat v :: byte) = c" by (rule of_nat_byte)
  show "v < 16777216" using la lb lc unfolding v_def by simp
qed

lemma decode_quanta_full:
  assumes "decodeMap c0 = Some s0" "decodeMap c1 = Some s1" "decodeMap c2 = Some s2"
    "decodeMap c3 = Some s3"
  shows "decode_quanta (c0 # c1 # c2 # c3 # rest) =
         (case decode_quanta rest of Inl e \<Rightarrow> Inl e
          | Inr out \<Rightarrow> Inr (of_nat ((s0 * 262144 + s1 * 4096 + s2 * 64 + s3) div 65536) #
                           of_nat ((s0 * 262144 + s1 * 4096 + s2 * 64 + s3) div 256) #
                           of_nat (s0 * 262144 + s1 * 4096 + s2 * 64 + s3) # out))"
  using assms by (simp add: Let_def)

lemma decode_quanta_pad1:
  assumes "decodeMap c0 = Some s0" "decodeMap c1 = Some s1" "decodeMap c2 = Some s2"
  shows "decode_quanta [c0, c1, c2, padChar] =
         Inr [of_nat ((s0 * 262144 + s1 * 4096 + s2 * 64) div 65536),
              of_nat ((s0 * 262144 + s1 * 4096 + s2 * 64) div 256)]"
  using assms by (simp add: Let_def decodeMap_pad)

lemma decode_quanta_pad2:
  assumes "decodeMap c0 = Some s0" "decodeMap c1 = Some s1"
  shows "decode_quanta [c0, c1, padChar, padChar] =
         Inr [of_nat ((s0 * 262144 + s1 * 4096) div 65536)]"
  using assms by (simp add: Let_def decodeMap_pad)

lemma quantum3:
  fixes a b c :: byte
  defines "v \<equiv> unat a * 65536 + unat b * 256 + unat c"
  shows "decode_quanta (encode_char (v div 262144) # encode_char (v div 4096) #
            encode_char (v div 64) # encode_char v # rest) =
         (case decode_quanta rest of Inl e \<Rightarrow> Inl e | Inr out \<Rightarrow> Inr (a # b # c # out))"
proof -
  have v: "v < 16777216" unfolding v_def by (rule bytes_of_val(4))
  show ?thesis
    unfolding decode_quanta_full [OF decodeMap_encode decodeMap_encode decodeMap_encode
        decodeMap_encode] digits64 [OF v]
    unfolding v_def bytes_of_val(1,2,3) ..
qed

lemma quantum2:
  fixes a b :: byte
  defines "v \<equiv> unat a * 65536 + unat b * 256 + unat (0::byte)"
  shows "decode_quanta [encode_char (v div 262144), encode_char (v div 4096),
            encode_char (v div 64), padChar] = Inr [a, b]"
proof -
  have v: "v < 16777216" unfolding v_def by (rule bytes_of_val(4))
  have "v = (unat a * 1024 + unat b * 4) * 64" unfolding v_def by simp
  then have m: "v mod 64 = 0" by (simp only: mod_mult_self2_is_0)
  have e: "v div 262144 mod 64 * 262144 + v div 4096 mod 64 * 4096 + v div 64 mod 64 * 64 = v"
    using digits64 [OF v] m by linarith
  show ?thesis
    unfolding decode_quanta_pad1 [OF decodeMap_encode decodeMap_encode decodeMap_encode] e
    unfolding v_def bytes_of_val(1,2) ..
qed

lemma quantum1:
  fixes a :: byte
  defines "v \<equiv> unat a * 65536 + unat (0::byte) * 256 + unat (0::byte)"
  shows "decode_quanta [encode_char (v div 262144), encode_char (v div 4096),
            padChar, padChar] = Inr [a]"
proof -
  have v: "v < 16777216" unfolding v_def by (rule bytes_of_val(4))
  have "v = (unat a * 1024) * 64" unfolding v_def by simp
  then have m1: "v mod 64 = 0" by (simp only: mod_mult_self2_is_0)
  have "v div 64 = (unat a * 16) * 64" unfolding v_def by simp
  then have m2: "v div 64 mod 64 = 0" by (simp only: mod_mult_self2_is_0)
  have e: "v div 262144 mod 64 * 262144 + v div 4096 mod 64 * 4096 = v"
    using digits64 [OF v] m1 m2 by linarith
  show ?thesis
    unfolding decode_quanta_pad2 [OF decodeMap_encode decodeMap_encode] e
    unfolding v_def bytes_of_val(1) ..
qed

lemma quantum2': "decode_quanta [encode_char ((unat a * 65536 + unat b * 256) div 262144),
     encode_char ((unat a * 65536 + unat b * 256) div 4096),
     encode_char ((unat a * 65536 + unat b * 256) div 64), padChar] = Inr [a, b]"
  using quantum2 [of a b] by simp

lemma quantum1': "decode_quanta [encode_char ((unat a * 65536) div 262144),
     encode_char ((unat a * 65536) div 4096), padChar, padChar] = Inr [a]"
  using quantum1 [of a] by simp

lemma decode_quanta_Encode: "decode_quanta (EncodeToString bs) = Inr bs"
proof (induction bs rule: EncodeToString.induct)
  case (1 a b c rest)
  then show ?case by (simp only: EncodeToString.simps Let_def append_Cons append_Nil quantum3) simp
next
  case (2 a b)
  show ?case by (simp only: EncodeToString.simps Let_def quantum2')
next
  case (3 a)
  show ?case by (simp only: EncodeToString.simps Let_def quantum1')
next
  case 4
  show ?case by simp
qed

lemma Encode_plain: "filter (\<lambda>c. c \<noteq> CHR 0x0A \<and> c \<noteq> CHR 0x0D) (EncodeToString bs) = EncodeToString bs"
  by (induction bs rule: EncodeToString.induct) (simp_all add: Let_def encode_char_plain padChar_plain)

lemma base64_roundtrip: "DecodeString (EncodeToString bs) = Inr bs"
  by (simp add: DecodeString_def Encode_plain decode_quanta_Encode)

lemma decode_quanta_length: "decode_quanta s = Inr out \<Longrightarrow> 4 * length out \<le> 3 * length s"
  by (induction s arbitrary: out rule: decode_quanta.induct)
     (auto simp: Let_def split: option.splits if_splits sum.splits)

lemma DecodeString_length:
  assumes "DecodeString s = Inr out" shows "4 * length out \<le> 3 * length s"
proof -
  let ?f = "filter (\<lambda>c. c \<noteq> CHR 0x0A \<and> c \<noteq> CHR 0x0D) s"
  have "4 * length out \<le> 3 * length ?f" using assms decode_quanta_length by (simp add: DecodeString_def)
  moreover have "length ?f \<le> length s" by simp
  ultimately show ?thesis by linarith
qed

subsection \<open>encrypt and decrypt\<close>

lemma fake_Open_Seal: "fake_Open key nonce (fake_Seal key nonce plaintext) = Some plaintext"
  by (simp add: fake_Open_def fake_Seal_def fake_tag_def)

lemma decrypt_result:
  assumes "DecodeString c = Inr data" "aes_NewCipher (encryptionKey ss) = Inr k"
    "NonceSize \<le> length data"
  shows "fst (decrypt L ss c w) = Open L k (take NonceSize data) (drop NonceSize data)"
  using assms by (simp add: decrypt_def cipher_NewGCM_def Let_def split: sum.splits)

text \<open>
  Claim C4. With a key of 256 bits and a random source that delivers the nonce,
  \<open>encrypt\<close> succeeds on every byte string \<open>x\<close>, the empty one included, and
  \<open>decrypt\<close> of what it returns is \<open>x\<close>. The cipher is a parameter; what is asked of it
  is that opening what it sealed under this key and this nonce gives \<open>x\<close> back, which
  AES-GCM does.
\<close>

theorem encrypt_decrypt_roundtrip:
  assumes key: "length (encryptionKey ss) = 32"
    and rnd: "NonceSize \<le> length (entropy w)"
    and aead: "gcm_Open L (encryptionKey ss) (take NonceSize (entropy w))
                 (gcm_Seal L (encryptionKey ss) (take NonceSize (entropy w)) x) = Some x"
  shows "\<exists>c w1. encrypt L ss x w = (Inr c, w1) \<and> (\<forall>w2. fst (decrypt L ss c w2) = Inr x)"
proof -
  let ?k = "encryptionKey ss"
  let ?n = "take NonceSize (entropy w)"
  let ?c = "EncodeToString (?n @ gcm_Seal L ?k ?n x)"
  have nc: "aes_NewCipher ?k = Inr ?k" using key by (simp add: aes_NewCipher_def)
  have ln: "length ?n = NonceSize" using rnd by simp
  have enc: "encrypt L ss x w =
      (Inr ?c, record_call GcmSeal (w\<lparr>entropy := drop NonceSize (entropy w)\<rparr>))"
    using rnd by (simp add: encrypt_def nc cipher_NewGCM_def rand_ReadFull_def Seal_def)
  have dec: "fst (decrypt L ss ?c w2) = Inr x" for w2
  proof -
    have "fst (decrypt L ss ?c w2) =
          Open L ?k (take NonceSize (?n @ gcm_Seal L ?k ?n x))
            (drop NonceSize (?n @ gcm_Seal L ?k ?n x))"
      by (rule decrypt_result [OF base64_roundtrip nc]) (use rnd in simp)
    also have "\<dots> = Open L ?k ?n (gcm_Seal L ?k ?n x)" using ln by simp
    also have "\<dots> = Inr x" using aead by (simp add: Open_def)
    finally show ?thesis .
  qed
  show ?thesis using enc dec by blast
qed

theorem encrypt_decrypt_roundtrip_witness:
  "length (encryptionKey test_ss) = 32 \<and> NonceSize \<le> length (entropy empty_world) \<and>
   gcm_Open fake_libs (encryptionKey test_ss) (take NonceSize (entropy empty_world))
     (gcm_Seal fake_libs (encryptionKey test_ss) (take NonceSize (entropy empty_world)) [])
     = Some [] \<and>
   (\<exists>c w1. encrypt fake_libs test_ss [] empty_world = (Inr c, w1) \<and>
      (\<forall>w2. fst (decrypt fake_libs test_ss c w2) = Inr []))"
proof -
  have k: "length (encryptionKey test_ss) = 32" by (simp add: test_ss_def test_key_def)
  have r: "NonceSize \<le> length (entropy empty_world)"
    by (simp add: NonceSize_def empty_world_def)
  have a: "gcm_Open fake_libs (encryptionKey test_ss) (take NonceSize (entropy empty_world))
     (gcm_Seal fake_libs (encryptionKey test_ss) (take NonceSize (entropy empty_world)) [])
     = Some []"
    by (simp add: fake_libs_def fake_Open_Seal)
  show ?thesis using k r a encrypt_decrypt_roundtrip [OF k r a] by simp
qed

subsection \<open>The deferred clearing of secrets\<close>

lemma clear_loop:
  "n \<le> length buf \<Longrightarrow>
   fold (\<lambda>i b. b[i := 0]) [0..<n] buf = replicate n (0::byte) @ drop n buf"
proof (induction n)
  case 0
  then show ?case by simp
next
  case (Suc n)
  then have "fold (\<lambda>i b. b[i := 0]) [0..<Suc n] buf = (replicate n 0 @ drop n buf)[n := 0]"
    by simp
  also have "\<dots> = replicate n 0 @ (drop n buf)[0 := 0]"
    by (simp add: list_update_append)
  also have "(drop n buf)[0 := 0] = 0 # drop (Suc n) buf"
  proof -
    have "drop n buf = buf ! n # drop (Suc n) buf"
      using Suc.prems by (simp add: Cons_nth_drop_Suc)
    then show ?thesis by simp
  qed
  finally show ?case by (simp add: replicate_append_same)
qed

lemma clear_PrivateKey_zero: "clear_PrivateKey buf = replicate (length buf) 0"
  using clear_loop [of "length buf" buf] by (simp add: clear_PrivateKey_def)

lemma GetWallet_name: "fst (StorageService_GetWallet L ss name w) = Inr walletObj \<Longrightarrow> name \<noteq> []"
  by (auto simp: StorageService_GetWallet_def)

text \<open>
  Claim C1. Whenever \<open>SignTransaction\<close> or \<open>GetAddress\<close> has retrieved and decrypted
  the wallet record, the record it holds when it returns has a private-key buffer of the
  same length filled with zero bytes and an empty mnemonic, whatever the Signing Provider
  answered (any \<open>trustWallet\<close>, success or error).
\<close>

theorem secrets_cleared_on_return:
  assumes got: "fst (StorageService_GetWallet L (storage ws) name w) = Inr walletObj"
  shows "(txData \<noteq> [] \<longrightarrow>
            (\<exists>result w2 obj.
               WalletService_SignTransaction L ws name txData w = ((result, Some obj), w2) \<and>
               PrivateKey obj = replicate (length (PrivateKey walletObj)) 0 \<and>
               Mnemonic obj = [])) \<and>
         (\<exists>result w2 obj.
            WalletService_GetAddress L ws name coinType derivationPath w
              = ((result, Some obj), w2) \<and>
            PrivateKey obj = replicate (length (PrivateKey walletObj)) 0 \<and>
            Mnemonic obj = [])"
proof -
  have n: "name \<noteq> []" using got by (rule GetWallet_name)
  obtain w1 where g: "StorageService_GetWallet L (storage ws) name w = (Inr walletObj, w1)"
    using got by (cases "StorageService_GetWallet L (storage ws) name w") simp
  have s: "PrivateKey (SignTransaction_deferred walletObj) = replicate (length (PrivateKey walletObj)) 0
        \<and> Mnemonic (SignTransaction_deferred walletObj) = []"
    by (simp add: SignTransaction_deferred_def clear_PrivateKey_zero)
  have a: "PrivateKey (GetAddress_deferred walletObj) = replicate (length (PrivateKey walletObj)) 0
        \<and> Mnemonic (GetAddress_deferred walletObj) = []"
    by (simp add: GetAddress_deferred_def clear_PrivateKey_zero)
  have "txData \<noteq> [] \<Longrightarrow> \<exists>result w2. WalletService_SignTransaction L ws name txData w
          = ((result, Some (SignTransaction_deferred walletObj)), w2)"
    using n g by (simp add: WalletService_SignTransaction_def Let_def)
  moreover have "\<exists>result w2. WalletService_GetAddress L ws name coinType derivationPath w
          = ((result, Some (GetAddress_deferred walletObj)), w2)"
    using n g by (simp add: WalletService_GetAddress_def Let_def)
  ultimately show ?thesis using s a by blast
qed

lemma decrypt_stored:
  "fst (decrypt fake_libs test_ss (EncodeToString (test_nonce @ fake_Seal test_key test_nonce p)) w) = Inr p"
proof -
  have nc: "aes_NewCipher (encryptionKey test_ss) = Inr test_key"
    by (simp add: aes_NewCipher_def test_ss_def test_key_def)
  have "fst (decrypt fake_libs test_ss (EncodeToString (test_nonce @ fake_Seal test_key test_nonce p)) w)
     = Open fake_libs test_key (take NonceSize (test_nonce @ fake_Seal test_key test_nonce p))
            (drop NonceSize (test_nonce @ fake_Seal test_key test_nonce p))"
    by (rule decrypt_result [OF base64_roundtrip nc]) (simp add: NonceSize_def test_nonce_def)
  also have "\<dots> = Inr p"
    by (simp add: NonceSize_def test_nonce_def Open_def fake_libs_def fake_Open_Seal)
  finally show ?thesis .
qed

lemma decryptWallet_fst:
  "fst (decryptWallet L ss e w) =
     (case fst (decrypt L ss (MnemonicEncrypted e) w) of
        Inl err \<Rightarrow> Inl (Errorf ''%w: failed to decrypt mnemonic'' (Sentinel storage_ErrDecryptionFailed))
      | Inr m \<Rightarrow>
     (case fst (decrypt L ss (PrivateKeyEncrypted e) (snd (decrypt L ss (MnemonicEncrypted e) w))) of
        Inl err \<Rightarrow> Inl (Errorf ''%w: failed to decrypt private key'' (Sentinel storage_ErrDecryptionFailed))
      | Inr k \<Rightarrow> Inr \<lparr>Name = enc_Name e, CoinType = enc_CoinType e, Mnemonic = string_of_bytes m,
            PrivateKey = k, PublicKey = enc_PublicKey e, Address = enc_Address e,
            CreatedAt = enc_CreatedAt e\<rparr>))"
  by (simp add: decryptWallet_def split: prod.splits sum.splits)

lemma GetWallet_fst:
  "name \<noteq> [] \<Longrightarrow>
   fst (StorageService_GetWallet L ss name w) =
     (case fst (backend_Get (''wallets/'' @ name) w) of
        Inl err \<Rightarrow> Inl (Errorf ''failed to retrieve wallet: %w'' err)
      | Inr None \<Rightarrow> Inl (Sentinel storage_ErrWalletNotFound)
      | Inr (Some entry) \<Rightarrow>
     (case json_Unmarshal L entry of
        None \<Rightarrow> Inl (Errorf ''failed to decode wallet: %w'' (New ''json: error''))
      | Some encrypted \<Rightarrow>
     (case fst (decryptWallet L ss encrypted (snd (backend_Get (''wallets/'' @ name) w))) of
        Inl err \<Rightarrow> Inl (Errorf ''failed to decrypt wallet: %w'' err)
      | Inr wallet \<Rightarrow> Inr wallet)))"
  by (simp add: StorageService_GetWallet_def split: prod.splits sum.splits option.splits)

lemma string_of_mn: "string_of_bytes [109, 110] = ''mn''"
  by code_simp

lemma GetWallet_w1:
  "fst (StorageService_GetWallet fake_libs test_ss ''w1'' world_w1) =
     Inr \<lparr>Name = ''w1'', CoinType = 60, Mnemonic = ''mn'', PrivateKey = [1, 2, 3],
          PublicKey = ''04ab'', Address = ''0xabc'', CreatedAt = 1700000000\<rparr>"
proof -
  have u: "json_Unmarshal fake_libs ''{w1}'' = Some stored_w1"
    by (simp add: fake_libs_def fake_Unmarshal_def)
  have g: "backend_Get ''wallets/w1'' world_w1 = (Inr (Some ''{w1}''), record_call (BackendGet ''wallets/w1'') world_w1)"
    by (simp add: backend_Get_def next_fault_def record_call_def world_w1_def empty_world_def)
  have d: "fst (decryptWallet fake_libs test_ss stored_w1 w) =
     Inr \<lparr>Name = ''w1'', CoinType = 60, Mnemonic = ''mn'', PrivateKey = [1, 2, 3],
          PublicKey = ''04ab'', Address = ''0xabc'', CreatedAt = 1700000000\<rparr>" for w
    unfolding decryptWallet_fst
    by (simp add: stored_w1_def decrypt_stored string_of_mn)
  show ?thesis
    by (simp add: GetWallet_fst g u d)
qed

theorem secrets_cleared_on_return_witness:
  "fst (StorageService_GetWallet fake_libs (storage test_ws) ''w1'' world_w1) =
     Inr \<lparr>Name = ''w1'', CoinType = 60, Mnemonic = ''mn'', PrivateKey = [1, 2, 3],
          PublicKey = ''04ab'', Address = ''0xabc'', CreatedAt = 1700000000\<rparr> \<and>
   [5::byte] \<noteq> [] \<and>
   (\<exists>result w2 obj.
      WalletService_SignTransaction fake_libs test_ws ''w1'' [5] world_w1
        = ((result, Some obj), w2) \<and>
      PrivateKey obj = [0, 0, 0] \<and> Mnemonic obj = []) \<and>
   (\<exists>result w2 obj.
      WalletService_GetAddress fake_libs test_ws ''w1'' 60 [] world_w1 = ((result, Some obj), w2) \<and>
      PrivateKey obj = [0, 0, 0] \<and> Mnemonic obj = [])"
proof -
  have g: "fst (StorageService_GetWallet fake_libs (storage test_ws) ''w1'' world_w1) =
     Inr \<lparr>Name = ''w1'', CoinType = 60, Mnemonic = ''mn'', PrivateKey = [1, 2, 3],
          PublicKey = ''04ab'', Address = ''0xabc'', CreatedAt = 1700000000\<rparr>"
    using GetWallet_w1 by (simp add: test_ws_def)
  show ?thesis
    using g secrets_cleared_on_return [OF g, of "[5]" 60 "[]"]
    by (simp add: numeral_3_eq_3)
qed

subsection \<open>Listing\<close>

lemma list_ab: "backend_List ''wallets/'' world_ab = (Inr [''a'', ''b''], record_call (BackendList ''wallets/'') world_ab)"
  by (simp add: backend_List_def next_fault_def record_call_def world_ab_def empty_world_def list_entry_def)

text \<open>
  For arguments that are not negative and whose sum fits an \<open>int\<close>, the page is the
  one expected: nothing from an offset at or past the end, everything from the offset on
  when the limit is zero, otherwise at most \<open>limit\<close> names from the offset on.
\<close>

lemma sint_len: "length keys < 2 ^ 63 \<Longrightarrow> sint (len keys) = int (length keys)"
proof -
  assume n: "length keys < 2 ^ 63"
  have "int (length keys) < 2 ^ 63" using n by (simp add: of_nat_less_numeral_power_cancel_iff)
  then have "signed_take_bit 63 (int (length keys)) = int (length keys)"
    by (intro signed_take_bit_int_eq_self) simp_all
  then show ?thesis by (simp add: len_def signed_of_nat)
qed

lemma sint_add_fits:
  fixes a b :: go_int
  assumes "0 \<le> sint a" "0 \<le> sint b" "sint a + sint b < 2 ^ 63"
  shows "sint (a + b) = sint a + sint b"
proof -
  have "signed_take_bit 63 (sint a + sint b) = sint a + sint b"
    using assms by (intro signed_take_bit_int_eq_self) simp_all
  then show ?thesis by (simp add: sint_word_ariths)
qed

lemma ListWallets_pagination:
  assumes l: "backend_List ''wallets/'' w = (Inr keys, w1)"
    and n: "length keys < 2 ^ 63"
    and o: "0 \<le> sint offset" and li: "0 \<le> sint limit"
    and fit: "sint offset + sint limit < 2 ^ 63"
  shows "StorageService_ListWallets ss offset limit w =
     (Returns (Inr (if int (length keys) \<le> sint offset then []
                    else if sint limit \<le> 0 then drop (nat (sint offset)) keys
                    else take (nat (sint limit)) (drop (nat (sint offset)) keys))), w1)"
proof -
  note t = sint_len [OF n]
  note e = sint_add_fits [OF o li fit]
  show ?thesis
  proof (cases "int (length keys) \<le> sint offset")
    case True
    then show ?thesis using l by (simp add: StorageService_ListWallets_def Let_def t)
  next
    case False
    show ?thesis
    proof (cases "sint limit \<le> 0 \<or> int (length keys) < sint offset + sint limit")
      case True
      have "take (nat (sint limit)) (drop (nat (sint offset)) keys) = drop (nat (sint offset)) keys"
        if "\<not> sint limit \<le> 0"
      proof -
        have "length (drop (nat (sint offset)) keys) \<le> nat (sint limit)"
          using True that o by simp
        then show ?thesis by simp
      qed
      then show ?thesis using l False True o
        by (auto simp: StorageService_ListWallets_def Let_def t e slice_def)
    next
      case False
      then have "sint offset + sint limit - sint offset = sint limit" by simp
      then show ?thesis using l \<open>\<not> int (length keys) \<le> sint offset\<close> False o li
        by (auto simp: StorageService_ListWallets_def Let_def t e slice_def)
    qed
  qed
qed

text \<open>
  Claim C8. With two stored names, offset 1 and the largest limit an \<open>int\<close> holds, the sum
  \<open>offset + limit\<close> wraps around to a negative \<open>end\<close>, neither clamp applies, and the
  slice expression \<open>keys[offset:end]\<close> panics: the names from offset on are not returned.
\<close>

theorem ListWallets_overflow_panics:
  "fst (StorageService_ListWallets test_ss 1 9223372036854775807 world_ab)
     = Panics ''runtime error: slice bounds out of range''"
  by (simp add: StorageService_ListWallets_def list_ab len_def slice_def Let_def)

text \<open>
  Claim C9, as stated, fails: \<open>WalletService.ListWallets\<close> does not look at the sign of
  its arguments. With limit \<open>-1\<close> it asks the store and returns every name.
\<close>

theorem WalletService_ListWallets_negative_limit:
  "WalletService_ListWallets test_ws 0 (- 1) world_ab
     = (Returns (Inr [''a'', ''b'']), record_call (BackendList ''wallets/'') world_ab)"
  by (simp add: WalletService_ListWallets_def StorageService_ListWallets_def list_ab len_def slice_def Let_def)

text \<open>
  Claim C9, amended. The check for a negative offset or limit is made by the router:
  \<open>handleWalletList\<close> answers with an error response and calls neither the Lifecycle
  Manager nor the store (the world, with its journal of calls, is unchanged).
\<close>

theorem handleWalletList_rejects_negative:
  assumes "sint (fd_offset data) < 0 \<or> sint (fd_limit data) < 0"
  shows "\<exists>msg. handleWalletList b data w = (Returns (Inr (ErrorResponse msg)), w)"
  using assms by (auto simp: handleWalletList_def Let_def)

theorem handleWalletList_rejects_negative_witness:
  "(sint (fd_offset (no_fields\<lparr>fd_limit := - 1\<rparr>)) < 0 \<or> sint (fd_limit (no_fields\<lparr>fd_limit := - 1\<rparr>)) < 0) \<and>
   (\<exists>msg. handleWalletList test_backend (no_fields\<lparr>fd_limit := - 1\<rparr>) world_ab
        = (Returns (Inr (ErrorResponse msg)), world_ab))"
proof -
  have h: "sint (fd_offset (no_fields\<lparr>fd_limit := - 1\<rparr>)) < 0 \<or> sint (fd_limit (no_fields\<lparr>fd_limit := - 1\<rparr>)) < 0"
    by simp
  show ?thesis using h handleWalletList_rejects_negative [OF h] by blast
qed

subsection \<open>The sign handler and its transaction data\<close>

text \<open>
  Claim C7. A sign request whose \<open>tx_data\<close> does not decode, is longer than the cap of
  1 MiB (and so every request whose decoded bytes would be longer than 1 MiB), or decodes
  to no bytes is answered by the router with an error response, and the world is as it
  was: the journal shows no read of the backend, no opening of a ciphertext and no call
  of the Signing Provider. The Lifecycle Manager, given no transaction bytes, returns an
  error that the router maps to an error response, again without touching the world.
\<close>

theorem sign_rejects_bad_tx_data:
  assumes "(\<exists>e. DecodeString (fd_tx_data data) = Inl e)
         \<or> 1024 * 1024 < length (fd_tx_data data)
         \<or> (\<exists>txData. DecodeString (fd_tx_data data) = Inr txData \<and> 1024 * 1024 < length txData)
         \<or> DecodeString (fd_tx_data data) = Inr []"
  shows "(\<exists>msg. handleWalletSign L b data w = (Inr (ErrorResponse msg), w)) \<and>
         (\<exists>err msg. WalletService_SignTransaction L ws name [] w = ((Inl err, None), w) \<and>
                    handleError err = Inr (ErrorResponse msg))"
proof -
  have big: "1024 * 1024 < length (fd_tx_data data)"
    if "DecodeString (fd_tx_data data) = Inr txData" "1024 * 1024 < length txData" for txData
    using DecodeString_length [OF that(1)] that(2) by linarith
  have "\<exists>msg. handleWalletSign L b data w = (Inr (ErrorResponse msg), w)"
    using assms big
    by (auto simp: handleWalletSign_def Let_def split: option.splits sum.splits)
  moreover have "\<exists>err msg. WalletService_SignTransaction L ws name [] w = ((Inl err, None), w) \<and>
                    handleError err = Inr (ErrorResponse msg)"
    by (auto simp: WalletService_SignTransaction_def handleError_def)
  ultimately show ?thesis by blast
qed

lemma validate_w1: "validateWalletName ''w1'' = None"
  by code_simp

lemma Decode_empty: "DecodeString [] = Inr []"
  by (simp add: DecodeString_def)

theorem sign_rejects_bad_tx_data_witness:
  "((\<exists>e. DecodeString (fd_tx_data (no_fields\<lparr>fd_name := ''w1'', fd_tx_data := ''%%%%''\<rparr>)) = Inl e)
     \<or> 1024 * 1024 < length (fd_tx_data (no_fields\<lparr>fd_name := ''w1'', fd_tx_data := ''%%%%''\<rparr>))
     \<or> (\<exists>txData. DecodeString (fd_tx_data (no_fields\<lparr>fd_name := ''w1'', fd_tx_data := ''%%%%''\<rparr>)) = Inr txData
            \<and> 1024 * 1024 < length txData)
     \<or> DecodeString (fd_tx_data (no_fields\<lparr>fd_name := ''w1'', fd_tx_data := ''%%%%''\<rparr>)) = Inr []) \<and>
   (\<exists>msg. handleWalletSign fake_libs test_backend (no_fields\<lparr>fd_name := ''w1'', fd_tx_data := ''%%%%''\<rparr>) world_w1
       = (Inr (ErrorResponse msg), world_w1)) \<and>
   (\<exists>err msg. WalletService_SignTransaction fake_libs test_ws ''w1'' [] world_w1 = ((Inl err, None), world_w1) \<and>
       handleError err = Inr (ErrorResponse msg))"
proof -
  let ?d = "no_fields\<lparr>fd_name := ''w1'', fd_tx_data := ''%%%%''\<rparr>"
  have "DecodeString ''%%%%'' = Inl CorruptInputError" by code_simp
  then have h: "(\<exists>e. DecodeString (fd_tx_data ?d) = Inl e)
     \<or> 1024 * 1024 < length (fd_tx_data ?d)
     \<or> (\<exists>txData. DecodeString (fd_tx_data ?d) = Inr txData \<and> 1024 * 1024 < length txData)
     \<or> DecodeString (fd_tx_data ?d) = Inr []"
    by simp
  show ?thesis
    using h sign_rejects_bad_tx_data [OF h, of fake_libs test_backend world_w1 test_ws "''w1''"]
    by blast
qed

text \<open>
  Claim C10. When a sign request passes every check of the router, the bytes handed to
  \<open>WalletService.SignTransaction\<close> are the decoded \<open>tx_data\<close>, and there are at most
  786432 of them: the cap is on the encoded string, and four characters decode to at
  most three bytes.
\<close>

theorem sign_accepted_tx_data_bound:
  assumes "validateWalletName (fd_name data) = None"
    and "fd_tx_data data \<noteq> []"
    and "length (fd_tx_data data) \<le> 1024 * 1024"
    and "DecodeString (fd_tx_data data) = Inr txData"
    and "txData \<noteq> []"
  shows "length txData \<le> 786432 \<and>
         handleWalletSign L b data w =
           (case WalletService_SignTransaction L (walletService b) (fd_name data) txData w of
              ((Inl err, walletObj), w1) \<Rightarrow> (handleError err, w1)
            | ((Inr signature, walletObj), w1) \<Rightarrow>
                (Inr [(''signed_tx'', VString (EncodeToString signature))], w1))"
proof -
  have "4 * length txData \<le> 3 * length (fd_tx_data data)"
    using assms(4) by (rule DecodeString_length)
  then have "length txData \<le> 786432" using assms(3) by linarith
  moreover have "handleWalletSign L b data w =
           (case WalletService_SignTransaction L (walletService b) (fd_name data) txData w of
              ((Inl err, walletObj), w1) \<Rightarrow> (handleError err, w1)
            | ((Inr signature, walletObj), w1) \<Rightarrow>
                (Inr [(''signed_tx'', VString (EncodeToString signature))], w1))"
    using assms by (simp add: handleWalletSign_def Let_def)
  ultimately show ?thesis by blast
qed

theorem sign_accepted_tx_data_bound_witness:
  "validateWalletName (fd_name (no_fields\<lparr>fd_name := ''w1'', fd_tx_data := EncodeToString [5]\<rparr>)) = None \<and>
   fd_tx_data (no_fields\<lparr>fd_name := ''w1'', fd_tx_data := EncodeToString [5]\<rparr>) \<noteq> [] \<and>
   length (fd_tx_data (no_fields\<lparr>fd_name := ''w1'', fd_tx_data := EncodeToString [5]\<rparr>)) \<le> 1024 * 1024 \<and>
   DecodeString (fd_tx_data (no_fields\<lparr>fd_name := ''w1'', fd_tx_data := EncodeToString [5]\<rparr>)) = Inr [5] \<and>
   [5::byte] \<noteq> [] \<and>
   length [5::byte] \<le> 786432 \<and>
   handleWalletSign fake_libs test_backend (no_fields\<lparr>fd_name := ''w1'', fd_tx_data := EncodeToString [5]\<rparr>) world_w1 =
     (case WalletService_SignTransaction fake_libs (walletService test_backend)
             (fd_name (no_fields\<lparr>fd_name := ''w1'', fd_tx_data := EncodeToString [5]\<rparr>)) [5] world_w1 of
        ((Inl err, walletObj), w1) \<Rightarrow> (handleError err, w1)
      | ((Inr signature, walletObj), w1) \<Rightarrow>
          (Inr [(''signed_tx'', VString (EncodeToString signature))], w1))"
proof -
  let ?d = "no_fields\<lparr>fd_name := ''w1'', fd_tx_data := EncodeToString [5]\<rparr>"
  have a: "validateWalletName (fd_name ?d) = None" by (simp add: validate_w1)
  have b: "fd_tx_data ?d \<noteq> []" by (simp add: Let_def)
  have c: "length (fd_tx_data ?d) \<le> 1024 * 1024" by (simp add: Let_def)
  have d: "DecodeString (fd_tx_data ?d) = Inr [5]" by (simp add: base64_roundtrip del: EncodeToString.simps)
  have e: "[5::byte] \<noteq> []" by simp
  show ?thesis
    using a b c d e sign_accepted_tx_data_bound [OF a b c d e, of fake_libs test_backend world_w1]
    by blast
qed

subsection \<open>Reading metadata\<close>

lemma backend_Get_fst:
  "fst (backend_Get key w) =
     (case faults w of
        Some msg # fs \<Rightarrow> Inl (New msg)
      | _ \<Rightarrow> Inr (map_of (kv w) key))"
  by (simp add: backend_Get_def next_fault_def record_call_def split: list.splits option.splits)

lemma backend_Get_journal: "journal (snd (backend_Get key w)) = journal w @ [BackendGet key]"
  by (simp add: backend_Get_def next_fault_def record_call_def split: list.splits option.splits)

lemma backend_Get_kv: "kv (snd (backend_Get key w)) = kv w"
  by (simp add: backend_Get_def next_fault_def record_call_def split: list.splits option.splits)

lemma GetWalletMetadata_fst:
  "fst (StorageService_GetWalletMetadata L ss name w) =
     (if name = [] then Inl (New ''wallet name cannot be empty'')
      else case fst (backend_Get (''wallets/'' @ name) w) of
        Inl err \<Rightarrow> Inl (Errorf ''failed to retrieve wallet: %w'' err)
      | Inr None \<Rightarrow> Inl (Sentinel storage_ErrWalletNotFound)
      | Inr (Some entry) \<Rightarrow>
     (case json_Unmarshal L entry of
        None \<Rightarrow> Inl (Errorf ''failed to decode wallet: %w'' (New ''json: error''))
      | Some encrypted \<Rightarrow>
          Inr \<lparr>Name = enc_Name encrypted, CoinType = enc_CoinType encrypted, Mnemonic = [],
               PrivateKey = [], PublicKey = enc_PublicKey encrypted,
               Address = enc_Address encrypted, CreatedAt = enc_CreatedAt encrypted\<rparr>))"
  by (simp add: StorageService_GetWalletMetadata_def split: prod.splits sum.splits option.splits)

lemma GetWalletMetadata_snd:
  "snd (StorageService_GetWalletMetadata L ss name w) =
     (if name = [] then w else snd (backend_Get (''wallets/'' @ name) w))"
  by (simp add: StorageService_GetWalletMetadata_def split: prod.splits sum.splits option.splits)

text \<open>
  Claim C6. Take two worlds whose backends answer alike and whose entries under the
  name are both absent, both undecodable, or records that agree in every field but the
  two encrypted blobs; take any two encryption keys and any two ciphers. Then
  \<open>GetWalletMetadata\<close> returns the same result in both, and the only call it makes is
  the read of the backend: no ciphertext is opened. \<open>WalletService.GetWallet\<close> has the
  same effect on the world and the same result, with the store's errors translated.
\<close>

theorem getMetadata_never_decrypts:
  assumes f: "faults w' = faults w"
    and u: "json_Unmarshal L' = json_Unmarshal L"
    and r: "rel_option
              (\<lambda>v v'. rel_option
                 (\<lambda>e e'. e'\<lparr>MnemonicEncrypted := MnemonicEncrypted e,
                            PrivateKeyEncrypted := PrivateKeyEncrypted e\<rparr> = e)
                 (json_Unmarshal L v) (json_Unmarshal L v'))
              (map_of (kv w) (''wallets/'' @ name)) (map_of (kv w') (''wallets/'' @ name))"
  shows "fst (StorageService_GetWalletMetadata L ss name w)
           = fst (StorageService_GetWalletMetadata L' ss' name w') \<and>
         journal (snd (StorageService_GetWalletMetadata L ss name w))
           = journal w @ (if name = [] then [] else [BackendGet (''wallets/'' @ name)]) \<and>
         snd (WalletService_GetWallet L ws name w)
           = snd (StorageService_GetWalletMetadata L (storage ws) name w) \<and>
         fst (WalletService_GetWallet L ws name w)
           = (case fst (StorageService_GetWalletMetadata L (storage ws) name w) of
                Inr walletObj \<Rightarrow> Inr walletObj
              | Inl err \<Rightarrow>
                  Inl (if name = [] then Sentinel service_ErrInvalidWalletName
                       else if errors_Is err storage_ErrWalletNotFound
                       then Sentinel service_ErrWalletNotFound
                       else Errorf ''failed to retrieve wallet: %w'' err))"
proof -
  have 1: "fst (StorageService_GetWalletMetadata L ss name w)
           = fst (StorageService_GetWalletMetadata L' ss' name w')"
  proof (cases "map_of (kv w) (''wallets/'' @ name)")
    case None
    then have "map_of (kv w') (''wallets/'' @ name) = None" using r by (cases "map_of (kv w') (''wallets/'' @ name)") simp_all
    then show ?thesis using None f u by (simp add: GetWalletMetadata_fst backend_Get_fst split: list.splits option.splits)
  next
    case (Some v)
    then obtain v' where v': "map_of (kv w') (''wallets/'' @ name) = Some v'"
      and rv: "rel_option (\<lambda>e e'. e'\<lparr>MnemonicEncrypted := MnemonicEncrypted e,
                            PrivateKeyEncrypted := PrivateKeyEncrypted e\<rparr> = e)
                 (json_Unmarshal L v) (json_Unmarshal L v')"
      using r by (cases "map_of (kv w') (''wallets/'' @ name)") simp_all
    show ?thesis
    proof (cases "json_Unmarshal L v")
      case None
      then have "json_Unmarshal L v' = None" using rv by (cases "json_Unmarshal L v'") simp_all
      then show ?thesis using None Some v' f u by (simp add: GetWalletMetadata_fst backend_Get_fst split: list.splits option.splits)
    next
      case (Some e)
      then obtain e' where e': "json_Unmarshal L v' = Some e'"
        and re: "e'\<lparr>MnemonicEncrypted := MnemonicEncrypted e,
                            PrivateKeyEncrypted := PrivateKeyEncrypted e\<rparr> = e"
        using rv by (cases "json_Unmarshal L v'") simp_all
      have m: "enc_Name e' = enc_Name e \<and> enc_CoinType e' = enc_CoinType e \<and>
               enc_PublicKey e' = enc_PublicKey e \<and> enc_Address e' = enc_Address e \<and>
               enc_CreatedAt e' = enc_CreatedAt e"
        by (subst (1 2 3 4 5) re [symmetric]) simp
      show ?thesis using Some \<open>map_of (kv w) (''wallets/'' @ name) = Some v\<close> v' e' m f u
        by (simp add: GetWalletMetadata_fst backend_Get_fst split: list.splits option.splits)
    qed
  qed
  have 2: "journal (snd (StorageService_GetWalletMetadata L ss name w))
           = journal w @ (if name = [] then [] else [BackendGet (''wallets/'' @ name)])"
    by (simp add: GetWalletMetadata_snd backend_Get_journal)
  have 3: "snd (WalletService_GetWallet L ws name w)
           = snd (StorageService_GetWalletMetadata L (storage ws) name w)"
    by (simp add: WalletService_GetWallet_def GetWalletMetadata_snd StorageService_GetWalletMetadata_def
          split: prod.splits sum.splits option.splits)
  have 4: "fst (WalletService_GetWallet L ws name w)
           = (case fst (StorageService_GetWalletMetadata L (storage ws) name w) of
                Inr walletObj \<Rightarrow> Inr walletObj
              | Inl err \<Rightarrow>
                  Inl (if name = [] then Sentinel service_ErrInvalidWalletName
                       else if errors_Is err storage_ErrWalletNotFound
                       then Sentinel service_ErrWalletNotFound
                       else Errorf ''failed to retrieve wallet: %w'' err))"
    by (simp add: WalletService_GetWallet_def StorageService_GetWalletMetadata_def
          split: prod.splits sum.splits option.splits)
  show ?thesis using 1 2 3 4 by blast
qed


theorem getMetadata_never_decrypts_witness:
  "faults world_tampered = faults world_w1 \<and>
   json_Unmarshal fake_libs = json_Unmarshal fake_libs \<and>
   rel_option
     (\<lambda>v v'. rel_option
        (\<lambda>e e'. e'\<lparr>MnemonicEncrypted := MnemonicEncrypted e,
                   PrivateKeyEncrypted := PrivateKeyEncrypted e\<rparr> = e)
        (json_Unmarshal fake_libs v) (json_Unmarshal fake_libs v'))
     (map_of (kv world_w1) (''wallets/'' @ ''w1'')) (map_of (kv world_tampered) (''wallets/'' @ ''w1'')) \<and>
   fst (StorageService_GetWalletMetadata fake_libs test_ss ''w1'' world_w1)
     = fst (StorageService_GetWalletMetadata fake_libs \<lparr>encryptionKey = replicate 32 9\<rparr> ''w1''
              world_tampered) \<and>
   journal (snd (StorageService_GetWalletMetadata fake_libs test_ss ''w1'' world_w1))
     = [BackendGet ''wallets/w1'']"
proof -
  have f: "faults world_tampered = faults world_w1"
    by (simp add: world_tampered_def world_w1_def)
  have u: "json_Unmarshal fake_libs = json_Unmarshal fake_libs" ..
  have r: "rel_option
     (\<lambda>v v'. rel_option
        (\<lambda>e e'. e'\<lparr>MnemonicEncrypted := MnemonicEncrypted e,
                   PrivateKeyEncrypted := PrivateKeyEncrypted e\<rparr> = e)
        (json_Unmarshal fake_libs v) (json_Unmarshal fake_libs v'))
     (map_of (kv world_w1) (''wallets/'' @ ''w1'')) (map_of (kv world_tampered) (''wallets/'' @ ''w1''))"
    by (simp add: world_tampered_def world_w1_def empty_world_def fake_libs_def fake_Unmarshal_def
          tampered_w1_def)
  have j: "journal world_w1 = []" by (simp add: world_w1_def empty_world_def)
  show ?thesis
    using f u r getMetadata_never_decrypts [OF f u r, of test_ss "\<lparr>encryptionKey = replicate 32 9\<rparr>" test_ws]
    by (simp add: j)
qed

subsection \<open>Reading a wallet with its secrets\<close>

lemma decrypt_fst:
  "fst (decrypt L ss c w) =
     (case DecodeString c of
        Inl err \<Rightarrow> Inl err
      | Inr data \<Rightarrow>
     (case aes_NewCipher (encryptionKey ss) of
        Inl err \<Rightarrow> Inl err
      | Inr block \<Rightarrow>
          if length data < NonceSize then Inl (New ''ciphertext too short'')
          else Open L block (take NonceSize data) (drop NonceSize data)))"
  by (simp add: decrypt_def cipher_NewGCM_def Let_def split: sum.splits)

lemma decrypt_Inr:
  assumes "fst (decrypt L ss c w) = Inr p"
  shows "\<exists>data. DecodeString c = Inr data \<and> NonceSize \<le> length data \<and>
           gcm_Open L (encryptionKey ss) (take NonceSize data) (drop NonceSize data) = Some p"
  using assms
  by (auto simp: decrypt_fst Open_def aes_NewCipher_def split: sum.splits if_splits option.splits)

lemma decrypt_rejects:
  assumes "DecodeString c = Inr data"
    and "length data < NonceSize \<or>
         gcm_Open L (encryptionKey ss) (take NonceSize data) (drop NonceSize data) = None"
  shows "\<exists>e. fst (decrypt L ss c w) = Inl e"
  using assms
  by (auto simp: decrypt_fst Open_def aes_NewCipher_def split: sum.splits if_splits option.splits)

lemma decryptWallet_Inl:
  assumes "fst (decryptWallet L ss e w) = Inl err"
  shows "errors_Is err storage_ErrDecryptionFailed \<and> \<not> errors_Is err storage_ErrWalletNotFound"
  using assms by (auto simp: decryptWallet_fst split: sum.splits)

lemma decryptWallet_rejects:
  assumes "(\<exists>e. fst (decrypt L ss (MnemonicEncrypted enc) w1) = Inl e) \<or>
           (\<exists>e. fst (decrypt L ss (PrivateKeyEncrypted enc) w2) = Inl e)"
  shows "\<exists>err. fst (decryptWallet L ss enc w) = Inl err"
proof -
  have i: "fst (decrypt L ss c u) = fst (decrypt L ss c v)" for c u v
    by (simp add: decrypt_fst)
  from assms show ?thesis
  proof
    assume "\<exists>e. fst (decrypt L ss (MnemonicEncrypted enc) w1) = Inl e"
    then obtain e where "fst (decrypt L ss (MnemonicEncrypted enc) w) = Inl e"
      using i [of "MnemonicEncrypted enc" w w1] by auto
    then show ?thesis by (simp add: decryptWallet_fst)
  next
    assume "\<exists>e. fst (decrypt L ss (PrivateKeyEncrypted enc) w2) = Inl e"
    then obtain e where "fst (decrypt L ss (PrivateKeyEncrypted enc)
          (snd (decrypt L ss (MnemonicEncrypted enc) w))) = Inl e"
      using i [of "PrivateKeyEncrypted enc" _ w2] by auto
    then show ?thesis by (simp add: decryptWallet_fst split: sum.splits)
  qed
qed

lemma decryptWallet_Inr:
  assumes "fst (decryptWallet L ss enc w) = Inr wallet"
  shows "\<exists>pm. fst (decrypt L ss (MnemonicEncrypted enc) w) = Inr pm \<and>
           Mnemonic wallet = string_of_bytes pm \<and>
           fst (decrypt L ss (PrivateKeyEncrypted enc) w) = Inr (PrivateKey wallet)"
proof -
  have i: "fst (decrypt L ss c u) = fst (decrypt L ss c v)" for c u v
    by (simp add: decrypt_fst)
  obtain pm where m: "fst (decrypt L ss (MnemonicEncrypted enc) w) = Inr pm"
    using assms by (cases "fst (decrypt L ss (MnemonicEncrypted enc) w)") (simp_all add: decryptWallet_fst)
  obtain pk where k: "fst (decrypt L ss (PrivateKeyEncrypted enc)
          (snd (decrypt L ss (MnemonicEncrypted enc) w))) = Inr pk"
    using assms m by (cases "fst (decrypt L ss (PrivateKeyEncrypted enc)
          (snd (decrypt L ss (MnemonicEncrypted enc) w)))") (simp_all add: decryptWallet_fst)
  have "wallet = \<lparr>Name = enc_Name enc, CoinType = enc_CoinType enc, Mnemonic = string_of_bytes pm,
            PrivateKey = pk, PublicKey = enc_PublicKey enc, Address = enc_Address enc,
            CreatedAt = enc_CreatedAt enc\<rparr>"
    using assms m k by (simp add: decryptWallet_fst)
  moreover have "fst (decrypt L ss (PrivateKeyEncrypted enc) w) = Inr pk"
    using k i [of "PrivateKeyEncrypted enc" w "snd (decrypt L ss (MnemonicEncrypted enc) w)"]
    by simp
  ultimately show ?thesis using m by simp
qed

lemma backend_Get_Inl: "fst (backend_Get key w) = Inl err \<Longrightarrow> \<exists>msg. err = New msg"
  by (auto simp: backend_Get_fst split: list.splits option.splits)

text \<open>
  Claim C2, amended. For every name that is not empty: \<open>GetWallet\<close> fails with
  \<open>ErrWalletNotFound\<close> exactly when the backend answers that there is no entry under the
  name; when there is a record and the decoded blob of either secret field is shorter than
  the nonce or does not pass the authentication of the cipher, it fails with an error that
  is \<open>ErrDecryptionFailed\<close> and is not \<open>ErrWalletNotFound\<close>; and every wallet it returns
  carries exactly the plaintexts that the cipher authenticated for the two stored blobs.
\<close>

theorem GetWallet_failures:
  assumes name: "name \<noteq> []"
  shows "((\<exists>e. fst (StorageService_GetWallet L ss name w) = Inl e \<and>
               errors_Is e storage_ErrWalletNotFound)
            \<longleftrightarrow> fst (backend_Get (''wallets/'' @ name) w) = Inr None) \<and>
         (fst (backend_Get (''wallets/'' @ name) w) = Inr (Some entry) \<longrightarrow>
          json_Unmarshal L entry = Some encrypted \<longrightarrow>
          blob = MnemonicEncrypted encrypted \<or> blob = PrivateKeyEncrypted encrypted \<longrightarrow>
          DecodeString blob = Inr data \<longrightarrow>
          length data < NonceSize \<or>
            gcm_Open L (encryptionKey ss) (take NonceSize data) (drop NonceSize data) = None \<longrightarrow>
          (\<exists>e. fst (StorageService_GetWallet L ss name w) = Inl e \<and>
               errors_Is e storage_ErrDecryptionFailed \<and>
               \<not> errors_Is e storage_ErrWalletNotFound)) \<and>
         (fst (StorageService_GetWallet L ss name w) = Inr wallet \<longrightarrow>
          (\<exists>entry encrypted dm dk pm.
              fst (backend_Get (''wallets/'' @ name) w) = Inr (Some entry) \<and>
              json_Unmarshal L entry = Some encrypted \<and>
              DecodeString (MnemonicEncrypted encrypted) = Inr dm \<and>
              gcm_Open L (encryptionKey ss) (take NonceSize dm) (drop NonceSize dm) = Some pm \<and>
              Mnemonic wallet = string_of_bytes pm \<and>
              DecodeString (PrivateKeyEncrypted encrypted) = Inr dk \<and>
              gcm_Open L (encryptionKey ss) (take NonceSize dk) (drop NonceSize dk)
                = Some (PrivateKey wallet)))"
proof (intro conjI impI)
  let ?g = "fst (backend_Get (''wallets/'' @ name) w)"
  let ?w1 = "snd (backend_Get (''wallets/'' @ name) w)"
  show "(\<exists>e. fst (StorageService_GetWallet L ss name w) = Inl e \<and>
               errors_Is e storage_ErrWalletNotFound) \<longleftrightarrow> ?g = Inr None"
  proof (cases ?g)
    case (Inl err)
    then show ?thesis using backend_Get_Inl [OF Inl] by (auto simp: GetWallet_fst [OF name])
  next
    case (Inr r)
    show ?thesis
    proof (cases r)
      case None
      then show ?thesis using Inr by (simp add: GetWallet_fst [OF name])
    next
      case (Some entry)
      show ?thesis
      proof (cases "json_Unmarshal L entry")
        case None
        then show ?thesis using Inr Some by (simp add: GetWallet_fst [OF name])
      next
        case (Some enc)
        show ?thesis
        proof (cases "fst (decryptWallet L ss enc ?w1)")
          case (Inl err)
          then show ?thesis using Inr \<open>r = Some entry\<close> Some decryptWallet_Inl [OF Inl]
            by (simp add: GetWallet_fst [OF name])
        next
          case (Inr wal)
          then show ?thesis using \<open>?g = Inr r\<close> \<open>r = Some entry\<close> Some
            by (simp add: GetWallet_fst [OF name])
        qed
      qed
    qed
  qed
next
  let ?w1 = "snd (backend_Get (''wallets/'' @ name) w)"
  assume g: "fst (backend_Get (''wallets/'' @ name) w) = Inr (Some entry)"
    and u: "json_Unmarshal L entry = Some encrypted"
    and b: "blob = MnemonicEncrypted encrypted \<or> blob = PrivateKeyEncrypted encrypted"
    and d: "DecodeString blob = Inr data"
    and bad: "length data < NonceSize \<or>
            gcm_Open L (encryptionKey ss) (take NonceSize data) (drop NonceSize data) = None"
  have "\<exists>e. fst (decrypt L ss blob ?w1) = Inl e" using d bad by (rule decrypt_rejects)
  then have "\<exists>err. fst (decryptWallet L ss encrypted ?w1) = Inl err"
    using b decryptWallet_rejects [of L ss encrypted ?w1 ?w1 ?w1] by auto
  then obtain err where e: "fst (decryptWallet L ss encrypted ?w1) = Inl err" ..
  show "\<exists>e. fst (StorageService_GetWallet L ss name w) = Inl e \<and>
               errors_Is e storage_ErrDecryptionFailed \<and>
               \<not> errors_Is e storage_ErrWalletNotFound"
    using g u e decryptWallet_Inl [OF e] by (simp add: GetWallet_fst [OF name])
next
  let ?g = "fst (backend_Get (''wallets/'' @ name) w)"
  let ?w1 = "snd (backend_Get (''wallets/'' @ name) w)"
  assume ok: "fst (StorageService_GetWallet L ss name w) = Inr wallet"
  then obtain entry where g: "?g = Inr (Some entry)"
    by (auto simp: GetWallet_fst [OF name] split: sum.splits option.splits)
  then obtain encrypted where u: "json_Unmarshal L entry = Some encrypted"
    using ok by (auto simp: GetWallet_fst [OF name] split: sum.splits option.splits)
  then have dw: "fst (decryptWallet L ss encrypted ?w1) = Inr wallet"
    using ok g by (auto simp: GetWallet_fst [OF name] split: sum.splits option.splits)
  from decryptWallet_Inr [OF dw] obtain pm where
    m: "fst (decrypt L ss (MnemonicEncrypted encrypted) ?w1) = Inr pm"
    and mw: "Mnemonic wallet = string_of_bytes pm"
    and k: "fst (decrypt L ss (PrivateKeyEncrypted encrypted) ?w1) = Inr (PrivateKey wallet)"
    by blast
  from decrypt_Inr [OF m] obtain dm where
    "DecodeString (MnemonicEncrypted encrypted) = Inr dm"
    "gcm_Open L (encryptionKey ss) (take NonceSize dm) (drop NonceSize dm) = Some pm" by blast
  moreover from decrypt_Inr [OF k] obtain dk where
    "DecodeString (PrivateKeyEncrypted encrypted) = Inr dk"
    "gcm_Open L (encryptionKey ss) (take NonceSize dk) (drop NonceSize dk) = Some (PrivateKey wallet)"
    by blast
  ultimately show "\<exists>entry encrypted dm dk pm.
              ?g = Inr (Some entry) \<and>
              json_Unmarshal L entry = Some encrypted \<and>
              DecodeString (MnemonicEncrypted encrypted) = Inr dm \<and>
              gcm_Open L (encryptionKey ss) (take NonceSize dm) (drop NonceSize dm) = Some pm \<and>
              Mnemonic wallet = string_of_bytes pm \<and>
              DecodeString (PrivateKeyEncrypted encrypted) = Inr dk \<and>
              gcm_Open L (encryptionKey ss) (take NonceSize dk) (drop NonceSize dk)
                = Some (PrivateKey wallet)"
    using g u mw by blast
qed

text \<open>
  Claim C2, as stated for every name, fails at the empty name: nothing is stored under
  it, and \<open>GetWallet\<close> fails with its own error, which is not \<open>ErrWalletNotFound\<close>.
\<close>

theorem GetWallet_empty_name_not_NotFound:
  "fst (backend_Get (''wallets/'' @ []) empty_world) = Inr None \<and>
   fst (StorageService_GetWallet fake_libs test_ss [] empty_world)
     = Inl (New ''wallet name cannot be empty'') \<and>
   \<not> errors_Is (New ''wallet name cannot be empty'') storage_ErrWalletNotFound"
  by (simp add: backend_Get_fst empty_world_def StorageService_GetWallet_def)


lemma tampered_rejected:
  "fake_Open test_key test_nonce (9 # 2 # 3 # fake_tag test_key test_nonce [1, 2, 3]) = None"
  by code_simp

theorem GetWallet_failures_witness:
  "''w1'' \<noteq> [] \<and>
   fst (backend_Get (''wallets/'' @ ''w1'') world_tampered) = Inr (Some ''{w1 tampered}'') \<and>
   json_Unmarshal fake_libs ''{w1 tampered}'' = Some tampered_w1 \<and>
   DecodeString (PrivateKeyEncrypted tampered_w1)
     = Inr (test_nonce @ [9, 2, 3] @ fake_tag test_key test_nonce [1, 2, 3]) \<and>
   gcm_Open fake_libs (encryptionKey test_ss)
     (take NonceSize (test_nonce @ [9, 2, 3] @ fake_tag test_key test_nonce [1, 2, 3]))
     (drop NonceSize (test_nonce @ [9, 2, 3] @ fake_tag test_key test_nonce [1, 2, 3])) = None \<and>
   (\<exists>e. fst (StorageService_GetWallet fake_libs test_ss ''w1'' world_tampered) = Inl e \<and>
        errors_Is e storage_ErrDecryptionFailed \<and> \<not> errors_Is e storage_ErrWalletNotFound)"
proof -
  let ?data = "test_nonce @ [9, 2, 3] @ fake_tag test_key test_nonce [1, 2, 3]"
  have n: "''w1'' \<noteq> []" by simp
  have g: "fst (backend_Get (''wallets/'' @ ''w1'') world_tampered) = Inr (Some ''{w1 tampered}'')"
    by (simp add: backend_Get_fst world_tampered_def empty_world_def)
  have u: "json_Unmarshal fake_libs ''{w1 tampered}'' = Some tampered_w1"
    by (simp add: fake_libs_def fake_Unmarshal_def)
  have d: "DecodeString (PrivateKeyEncrypted tampered_w1) = Inr ?data"
    by (simp add: tampered_w1_def base64_roundtrip)
  have bad: "gcm_Open fake_libs (encryptionKey test_ss) (take NonceSize ?data)
       (drop NonceSize ?data) = None"
    by (simp add: fake_libs_def test_ss_def NonceSize_def test_nonce_def [THEN arg_cong, of length]
          tampered_rejected)
  have "\<exists>e. fst (StorageService_GetWallet fake_libs test_ss ''w1'' world_tampered) = Inl e \<and>
        errors_Is e storage_ErrDecryptionFailed \<and> \<not> errors_Is e storage_ErrWalletNotFound"
    using GetWallet_failures [OF n, of fake_libs test_ss world_tampered "''{w1 tampered}''"
        tampered_w1 "PrivateKeyEncrypted tampered_w1" ?data] g u d bad
    by blast
  then show ?thesis using n g u d bad by blast
qed

subsection \<open>Storing a wallet\<close>

lemma backend_Get_snd:
  "snd (backend_Get key w) = w\<lparr>faults := tl (faults w), journal := journal w @ [BackendGet key]\<rparr>"
  by (cases "faults w") (auto simp: backend_Get_def next_fault_def record_call_def split: option.splits)

lemma backend_Get_pair:
  "backend_Get key w = (r, w') \<Longrightarrow>
   kv w' = kv w \<and> faults w' = tl (faults w) \<and>
   entropy w' = entropy w \<and> clock w' = clock w \<and> journal w' = journal w @ [BackendGet key]"
  using backend_Get_snd [of key w] by (cases "backend_Get key w") auto

lemma backend_Put_pair:
  "backend_Put key v w = (r, w') \<Longrightarrow>
   faults w' = tl (faults w) \<and> journal w' = journal w @ [BackendPut key v] \<and>
   (r = None \<longrightarrow> kv w' = AList.update key v (kv w)) \<and>
   (r \<noteq> None \<longrightarrow> kv w' = kv w) \<and>
   (r = None \<longleftrightarrow> (faults w = [] \<or> hd (faults w) = None))"
  by (cases "faults w") (auto simp: backend_Put_def next_fault_def record_call_def split: option.splits)

lemma encrypt_pair:
  "encrypt L ss p w = (r, w') \<Longrightarrow>
   kv w' = kv w \<and> faults w' = faults w \<and> clock w' = clock w \<and>
   (case r of
      Inl e \<Rightarrow> journal w' = journal w
    | Inr c \<Rightarrow> journal w' = journal w @ [GcmSeal] \<and>
        entropy w' = drop NonceSize (entropy w) \<and>
        c = EncodeToString (take NonceSize (entropy w) @
              gcm_Seal L (encryptionKey ss) (take NonceSize (entropy w)) p))"
  by (auto simp: encrypt_def aes_NewCipher_def cipher_NewGCM_def rand_ReadFull_def record_call_def
        Seal_def split: sum.splits if_splits)

lemma encrypt_succeeds:
  "length (encryptionKey ss) = 32 \<Longrightarrow> NonceSize \<le> length (entropy w) \<Longrightarrow>
   \<exists>c. fst (encrypt L ss p w) = Inr c"
  by (simp add: encrypt_def aes_NewCipher_def cipher_NewGCM_def rand_ReadFull_def)

lemma encryptWallet_pair:
  assumes "encryptWallet L ss wallet w = (r, w')"
  shows "kv w' = kv w \<and> faults w' = faults w \<and> clock w' = clock w \<and>
   (case r of
      Inl e \<Rightarrow> True
    | Inr enc \<Rightarrow> journal w' = journal w @ [GcmSeal, GcmSeal] \<and>
        enc = \<lparr>enc_Name = Name wallet, enc_CoinType = CoinType wallet,
               MnemonicEncrypted = EncodeToString (take NonceSize (entropy w) @
                 gcm_Seal L (encryptionKey ss) (take NonceSize (entropy w))
                   (bytes_of_string (Mnemonic wallet))),
               PrivateKeyEncrypted = EncodeToString
                 (take NonceSize (drop NonceSize (entropy w)) @
                  gcm_Seal L (encryptionKey ss) (take NonceSize (drop NonceSize (entropy w)))
                    (PrivateKey wallet)),
               enc_PublicKey = PublicKey wallet, enc_Address = Address wallet,
               enc_CreatedAt = CreatedAt wallet\<rparr>)"
proof -
  obtain r1 w1 where e1: "encrypt L ss (bytes_of_string (Mnemonic wallet)) w = (r1, w1)"
    by (cases "encrypt L ss (bytes_of_string (Mnemonic wallet)) w")
  note p1 = encrypt_pair [OF e1]
  show ?thesis
  proof (cases r1)
    case (Inl e)
    then show ?thesis using assms e1 p1 by (auto simp: encryptWallet_def)
  next
    case (Inr c1)
    obtain r2 w2 where e2: "encrypt L ss (PrivateKey wallet) w1 = (r2, w2)"
      by (cases "encrypt L ss (PrivateKey wallet) w1")
    note p2 = encrypt_pair [OF e2]
    show ?thesis
    proof (cases r2)
      case (Inl e)
      then show ?thesis using assms e1 e2 p1 p2 Inr by (auto simp: encryptWallet_def)
    next
      case (Inr c2)
      then show ?thesis using assms e1 e2 p1 p2 \<open>r1 = Inr c1\<close> by (auto simp: encryptWallet_def)
    qed
  qed
qed

lemma encryptWallet_succeeds:
  assumes "length (encryptionKey ss) = 32" "2 * NonceSize \<le> length (entropy w)"
  shows "\<exists>enc. fst (encryptWallet L ss wallet w) = Inr enc"
proof -
  obtain r1 w1 where e1: "encrypt L ss (bytes_of_string (Mnemonic wallet)) w = (r1, w1)"
    by (cases "encrypt L ss (bytes_of_string (Mnemonic wallet)) w")
  have "NonceSize \<le> length (entropy w)" using assms(2) by simp
  from encrypt_succeeds [OF assms(1) this] e1 obtain c1 where r1: "r1 = Inr c1"
    by (metis fst_conv)
  have en: "entropy w1 = drop NonceSize (entropy w)" using encrypt_pair [OF e1] r1 by simp
  obtain r2 w2 where e2: "encrypt L ss (PrivateKey wallet) w1 = (r2, w2)"
    by (cases "encrypt L ss (PrivateKey wallet) w1")
  have "NonceSize \<le> length (entropy w1)" using assms(2) en by simp
  from encrypt_succeeds [OF assms(1) this] e2 obtain c2 where r2: "r2 = Inr c2"
    by (metis fst_conv)
  show ?thesis using e1 e2 r1 r2 by (simp add: encryptWallet_def)
qed

lemma StoreWallet_exists:
  assumes "fst (backend_Get (''wallets/'' @ Name wallet) w) = Inr (Some existing)"
  shows "StorageService_StoreWallet L ss (Some wallet) w =
           (Some (Sentinel storage_ErrWalletExists),
            w\<lparr>faults := tl (faults w),
              journal := journal w @ [BackendGet (''wallets/'' @ Name wallet)]\<rparr>)"
proof -
  have "backend_Get (''wallets/'' @ Name wallet) w =
      (Inr (Some existing), w\<lparr>faults := tl (faults w),
              journal := journal w @ [BackendGet (''wallets/'' @ Name wallet)]\<rparr>)"
    using assms backend_Get_snd [of "''wallets/'' @ Name wallet" w]
    by (cases "backend_Get (''wallets/'' @ Name wallet) w") simp
  then show ?thesis by (simp add: StorageService_StoreWallet_def)
qed

lemma StoreWallet_outcome:
  assumes s: "StorageService_StoreWallet L ss (Some wallet) w = (r, w')"
  shows "(r \<noteq> None \<longrightarrow> kv w' = kv w) \<and>
         (r = None \<longrightarrow>
            (\<exists>doc encrypted.
               json_Marshal L encrypted = Some doc \<and>
               fst (encryptWallet L ss wallet (snd (backend_Get (''wallets/'' @ Name wallet) w)))
                 = Inr encrypted \<and>
               fst (backend_Get (''wallets/'' @ Name wallet) w) = Inr None \<and>
               kv w' = AList.update (''wallets/'' @ Name wallet) doc (kv w) \<and>
               faults w' = tl (tl (faults w)) \<and>
               journal w' = journal w @ [BackendGet (''wallets/'' @ Name wallet), GcmSeal, GcmSeal,
                                         BackendPut (''wallets/'' @ Name wallet) doc]))"
proof -
  let ?key = "''wallets/'' @ Name wallet"
  obtain g w1 where g: "backend_Get ?key w = (g, w1)" by (cases "backend_Get ?key w")
  note pg = backend_Get_pair [OF g]
  show ?thesis
  proof (cases g)
    case (Inl e)
    then show ?thesis using s g pg by (auto simp: StorageService_StoreWallet_def)
  next
    case (Inr found)
    show ?thesis
    proof (cases found)
      case (Some existing)
      then show ?thesis using s g pg Inr by (auto simp: StorageService_StoreWallet_def)
    next
      case None
      obtain e w2 where e: "encryptWallet L ss wallet w1 = (e, w2)"
        by (cases "encryptWallet L ss wallet w1")
      note pe = encryptWallet_pair [OF e]
      show ?thesis
      proof (cases e)
        case (Inl err)
        then show ?thesis using s g pg Inr None e pe by (auto simp: StorageService_StoreWallet_def)
      next
        case (Inr encrypted)
        note enc = this
        show ?thesis
        proof (cases "json_Marshal L encrypted")
          case None
          then show ?thesis using s g pg \<open>g = Inr found\<close> \<open>found = None\<close> e pe enc
            by (auto simp: StorageService_StoreWallet_def)
        next
          case (Some doc)
          obtain p w3 where p: "backend_Put ?key doc w2 = (p, w3)"
            by (cases "backend_Put ?key doc w2")
          note pp = backend_Put_pair [OF p]
          have w1: "encryptWallet L ss wallet (snd (backend_Get ?key w)) = (e, w2)"
            "fst (backend_Get ?key w) = Inr None"
            using g e \<open>g = Inr found\<close> \<open>found = None\<close> by simp_all
          show ?thesis
          proof (cases p)
            case None
            then show ?thesis
              using s g pg \<open>g = Inr found\<close> \<open>found = None\<close> e pe enc Some p pp w1
              by (auto simp: StorageService_StoreWallet_def)
          next
            case (Some err)
            then show ?thesis
              using s g pg \<open>g = Inr found\<close> \<open>found = None\<close> e pe enc \<open>json_Marshal L encrypted = Some doc\<close> p pp
              by (auto simp: StorageService_StoreWallet_def)
          qed
        qed
      qed
    qed
  qed
qed


lemma StoreWallet_nil: "StorageService_StoreWallet L ss None w = (Some (New ''wallet cannot be nil''), w)"
  by (simp add: StorageService_StoreWallet_def)

lemma StoreWallet_succeeds:
  assumes g: "fst (backend_Get (''wallets/'' @ Name wallet) w) = Inr None"
    and k: "length (encryptionKey ss) = 32"
    and r: "2 * NonceSize \<le> length (entropy w)"
    and m: "\<forall>e. json_Marshal L e \<noteq> None"
    and f: "tl (faults w) = [] \<or> hd (tl (faults w)) = None"
  shows "fst (StorageService_StoreWallet L ss (Some wallet) w) = None"
proof -
  let ?key = "''wallets/'' @ Name wallet"
  obtain w1 where g1: "backend_Get ?key w = (Inr None, w1)"
    using g by (cases "backend_Get ?key w") simp
  note pg = backend_Get_pair [OF g1]
  have "2 * NonceSize \<le> length (entropy w1)" using r pg by simp
  from encryptWallet_succeeds [OF k this, of L wallet] obtain enc w2
    where e: "encryptWallet L ss wallet w1 = (Inr enc, w2)"
    by (cases "encryptWallet L ss wallet w1") auto
  note pe = encryptWallet_pair [OF e]
  obtain doc where d: "json_Marshal L enc = Some doc" using m by auto
  obtain p w3 where p: "backend_Put ?key doc w2 = (p, w3)" by (cases "backend_Put ?key doc w2")
  have "faults w2 = tl (faults w)" using pe pg by simp
  then have "p = None" using backend_Put_pair [OF p] f by simp
  then show ?thesis using g1 e d p by (simp add: StorageService_StoreWallet_def)
qed

lemma CreateWallet_keys:
  assumes n: "name \<noteq> []"
    and p: "(if mnemonic \<noteq> [] then ImportWallet (trustWallet ws) mnemonic coinType
             else GenerateWallet (trustWallet ws) coinType) = Inr keys"
  shows "WalletService_CreateWallet L ws name coinType mnemonic w =
     (case StorageService_StoreWallet L (storage ws)
             (Some \<lparr>Name = name, CoinType = coinType, Mnemonic = keys_Mnemonic keys,
                    PrivateKey = keys_PrivateKey keys,
                    PublicKey = GetPublicKeyHex (keys_PublicKey keys),
                    Address = keys_Address keys, CreatedAt = clock w\<rparr>)
             (record_call (if mnemonic \<noteq> [] then ProviderImportWallet
                           else ProviderGenerateWallet) w) of
        (Some err, w2) \<Rightarrow>
          (if errors_Is err storage_ErrWalletExists
           then (Inl (Sentinel service_ErrWalletExists), w2)
           else (Inl (Errorf ''failed to store wallet: %w'' err), w2))
      | (None, w2) \<Rightarrow>
          (Inr \<lparr>Name = name, CoinType = coinType, Mnemonic = [], PrivateKey = [],
                PublicKey = GetPublicKeyHex (keys_PublicKey keys),
                Address = keys_Address keys, CreatedAt = clock w\<rparr>, w2))"
  using n p
  by (cases "mnemonic = []")
     (simp_all add: WalletService_CreateWallet_def Let_def record_call_def
        split: prod.splits option.splits)

lemma CreateWallet_Inr:
  assumes "fst (WalletService_CreateWallet L ws name coinType mnemonic w) = Inr created"
  shows "name \<noteq> [] \<and>
         (\<exists>keys. (if mnemonic \<noteq> [] then ImportWallet (trustWallet ws) mnemonic coinType
                  else GenerateWallet (trustWallet ws) coinType) = Inr keys)"
  using assms
  by (cases "mnemonic = []")
     (auto simp: WalletService_CreateWallet_def Let_def split: if_splits sum.splits)

text \<open>
  Claim C5. When the backend answers that the name is present, \<open>StoreWallet\<close> fails with
  \<open>ErrWalletExists\<close>, the entries of the backend are what they were, and the only call
  made is the read: no write. After a create that succeeded, a second create under the
  same name (the backend answering, the provider delivering keys) returns
  \<open>ErrWalletExists\<close> and leaves the entries alone. No failure of \<open>StoreWallet\<close> changes
  the entries. When \<open>StoreWallet\<close> succeeds, the calls it made are the read, the two
  sealings and one write, of the marshalled encrypted record under the wallet's key; and it
  does succeed when the name is absent, the key has 32 bytes, the random source delivers
  two nonces, the record can be marshalled and the backend takes the write.
\<close>

theorem StoreWallet_duplicate_and_single_write:
  "(fst (backend_Get (''wallets/'' @ Name wallet) w) = Inr (Some existing) \<longrightarrow>
      fst (StorageService_StoreWallet L ss (Some wallet) w)
        = Some (Sentinel storage_ErrWalletExists) \<and>
      kv (snd (StorageService_StoreWallet L ss (Some wallet) w)) = kv w \<and>
      journal (snd (StorageService_StoreWallet L ss (Some wallet) w))
        = journal w @ [BackendGet (''wallets/'' @ Name wallet)]) \<and>
   (fst (WalletService_CreateWallet L ws name coinType mnemonic w) = Inr created \<longrightarrow>
    faults (snd (WalletService_CreateWallet L ws name coinType mnemonic w)) = [] \<or>
      hd (faults (snd (WalletService_CreateWallet L ws name coinType mnemonic w))) = None \<longrightarrow>
    (if mnemonic2 \<noteq> [] then ImportWallet (trustWallet ws) mnemonic2 coinType2
     else GenerateWallet (trustWallet ws) coinType2) = Inr keys2 \<longrightarrow>
      fst (WalletService_CreateWallet L ws name coinType2 mnemonic2
             (snd (WalletService_CreateWallet L ws name coinType mnemonic w)))
        = Inl (Sentinel service_ErrWalletExists) \<and>
      kv (snd (WalletService_CreateWallet L ws name coinType2 mnemonic2
             (snd (WalletService_CreateWallet L ws name coinType mnemonic w))))
        = kv (snd (WalletService_CreateWallet L ws name coinType mnemonic w))) \<and>
   (fst (StorageService_StoreWallet L ss wallet_ptr w) \<noteq> None \<longrightarrow>
      kv (snd (StorageService_StoreWallet L ss wallet_ptr w)) = kv w) \<and>
   (fst (StorageService_StoreWallet L ss (Some wallet) w) = None \<longrightarrow>
      (\<exists>doc encrypted.
         json_Marshal L encrypted = Some doc \<and>
         fst (encryptWallet L ss wallet (snd (backend_Get (''wallets/'' @ Name wallet) w)))
           = Inr encrypted \<and>
         kv (snd (StorageService_StoreWallet L ss (Some wallet) w))
           = AList.update (''wallets/'' @ Name wallet) doc (kv w) \<and>
         journal (snd (StorageService_StoreWallet L ss (Some wallet) w))
           = journal w @ [BackendGet (''wallets/'' @ Name wallet), GcmSeal, GcmSeal,
                          BackendPut (''wallets/'' @ Name wallet) doc])) \<and>
   (fst (backend_Get (''wallets/'' @ Name wallet) w) = Inr None \<longrightarrow>
    length (encryptionKey ss) = 32 \<longrightarrow>
    2 * NonceSize \<le> length (entropy w) \<longrightarrow>
    (\<forall>e. json_Marshal L e \<noteq> None) \<longrightarrow>
    tl (faults w) = [] \<or> hd (tl (faults w)) = None \<longrightarrow>
      fst (StorageService_StoreWallet L ss (Some wallet) w) = None)"
proof (intro conjI impI)
  assume "fst (backend_Get (''wallets/'' @ Name wallet) w) = Inr (Some existing)"
  from StoreWallet_exists [OF this, of L ss]
  show "fst (StorageService_StoreWallet L ss (Some wallet) w)
        = Some (Sentinel storage_ErrWalletExists)"
    and "kv (snd (StorageService_StoreWallet L ss (Some wallet) w)) = kv w"
    and "journal (snd (StorageService_StoreWallet L ss (Some wallet) w))
        = journal w @ [BackendGet (''wallets/'' @ Name wallet)]"
    by simp_all
next
  let ?c1 = "WalletService_CreateWallet L ws name coinType mnemonic w"
  let ?key = "''wallets/'' @ name"
  assume ok: "fst ?c1 = Inr created"
    and nf: "faults (snd ?c1) = [] \<or> hd (faults (snd ?c1)) = None"
    and p2: "(if mnemonic2 \<noteq> [] then ImportWallet (trustWallet ws) mnemonic2 coinType2
              else GenerateWallet (trustWallet ws) coinType2) = Inr keys2"
  from CreateWallet_Inr [OF ok] obtain keys where n: "name \<noteq> []"
    and p1: "(if mnemonic \<noteq> [] then ImportWallet (trustWallet ws) mnemonic coinType
              else GenerateWallet (trustWallet ws) coinType) = Inr keys" by blast
  let ?obj = "\<lparr>Name = name, CoinType = coinType, Mnemonic = keys_Mnemonic keys,
                    PrivateKey = keys_PrivateKey keys,
                    PublicKey = GetPublicKeyHex (keys_PublicKey keys),
                    Address = keys_Address keys, CreatedAt = clock w\<rparr>"
  let ?w1 = "record_call (if mnemonic \<noteq> [] then ProviderImportWallet
                           else ProviderGenerateWallet) w"
  obtain r w2 where s: "StorageService_StoreWallet L (storage ws) (Some ?obj) ?w1 = (r, w2)"
    by (cases "StorageService_StoreWallet L (storage ws) (Some ?obj) ?w1")
  have r: "r = None" and c1: "snd ?c1 = w2"
    using ok s by (auto simp: CreateWallet_keys [OF n p1] split: option.splits if_splits)
  from StoreWallet_outcome [OF s] r obtain doc
    where kv2: "kv w2 = AList.update ?key doc (kv ?w1)" by auto
  have present: "map_of (kv w2) ?key = Some doc" by (simp add: kv2 update_conv')
  let ?obj2 = "\<lparr>Name = name, CoinType = coinType2, Mnemonic = keys_Mnemonic keys2,
                    PrivateKey = keys_PrivateKey keys2,
                    PublicKey = GetPublicKeyHex (keys_PublicKey keys2),
                    Address = keys_Address keys2, CreatedAt = clock w2\<rparr>"
  let ?w3 = "record_call (if mnemonic2 \<noteq> [] then ProviderImportWallet
                           else ProviderGenerateWallet) w2"
  have "fst (backend_Get (''wallets/'' @ Name ?obj2) ?w3) = Inr (Some doc)"
    using present nf c1
    by (auto simp: backend_Get_fst record_call_def split: list.splits option.splits)
  from StoreWallet_exists [OF this, of L "storage ws"]
  have "fst (WalletService_CreateWallet L ws name coinType2 mnemonic2 w2)
          = Inl (Sentinel service_ErrWalletExists) \<and>
        kv (snd (WalletService_CreateWallet L ws name coinType2 mnemonic2 w2)) = kv w2"
    by (simp add: CreateWallet_keys [OF n p2] record_call_def)
  then show "fst (WalletService_CreateWallet L ws name coinType2 mnemonic2 (snd ?c1))
          = Inl (Sentinel service_ErrWalletExists)"
    and "kv (snd (WalletService_CreateWallet L ws name coinType2 mnemonic2 (snd ?c1)))
          = kv (snd ?c1)"
    using c1 by simp_all
next
  assume f: "fst (StorageService_StoreWallet L ss wallet_ptr w) \<noteq> None"
  show "kv (snd (StorageService_StoreWallet L ss wallet_ptr w)) = kv w"
  proof (cases wallet_ptr)
    case None
    then show ?thesis by (simp add: StoreWallet_nil)
  next
    case (Some wal)
    obtain r w' where s: "StorageService_StoreWallet L ss (Some wal) w = (r, w')"
      by (cases "StorageService_StoreWallet L ss (Some wal) w")
    then show ?thesis using StoreWallet_outcome [OF s] f Some by simp
  qed
next
  assume ok: "fst (StorageService_StoreWallet L ss (Some wallet) w) = None"
  obtain r w' where s: "StorageService_StoreWallet L ss (Some wallet) w = (r, w')"
    by (cases "StorageService_StoreWallet L ss (Some wallet) w")
  then show "\<exists>doc encrypted.
         json_Marshal L encrypted = Some doc \<and>
         fst (encryptWallet L ss wallet (snd (backend_Get (''wallets/'' @ Name wallet) w)))
           = Inr encrypted \<and>
         kv (snd (StorageService_StoreWallet L ss (Some wallet) w))
           = AList.update (''wallets/'' @ Name wallet) doc (kv w) \<and>
         journal (snd (StorageService_StoreWallet L ss (Some wallet) w))
           = journal w @ [BackendGet (''wallets/'' @ Name wallet), GcmSeal, GcmSeal,
                          BackendPut (''wallets/'' @ Name wallet) doc]"
    using StoreWallet_outcome [OF s] ok by auto
next
  assume "fst (backend_Get (''wallets/'' @ Name wallet) w) = Inr None"
    "length (encryptionKey ss) = 32" "2 * NonceSize \<le> length (entropy w)"
    "\<forall>e. json_Marshal L e \<noteq> None" "tl (faults w) = [] \<or> hd (tl (faults w)) = None"
  then show "fst (StorageService_StoreWallet L ss (Some wallet) w) = None"
    by (rule StoreWallet_succeeds)
qed


lemma first_create:
  "fst (WalletService_CreateWallet fake_libs test_ws ''w1'' 60 [] empty_world)
     = Inr \<lparr>Name = ''w1'', CoinType = 60, Mnemonic = [], PrivateKey = [],
            PublicKey = GetPublicKeyHex [4, 171], Address = ''0xabc'',
            CreatedAt = 1700000000\<rparr> \<and>
   faults (snd (WalletService_CreateWallet fake_libs test_ws ''w1'' 60 [] empty_world)) = []"
proof -
  let ?obj = "\<lparr>Name = ''w1'', CoinType = 60, Mnemonic = keys_Mnemonic test_keys,
                PrivateKey = keys_PrivateKey test_keys,
                PublicKey = GetPublicKeyHex (keys_PublicKey test_keys),
                Address = keys_Address test_keys, CreatedAt = clock empty_world\<rparr>"
  let ?w1 = "record_call (if ([]::string) \<noteq> [] then ProviderImportWallet
                           else ProviderGenerateWallet) empty_world"
  have n: "''w1'' \<noteq> []" by simp
  have p: "(if ([]::string) \<noteq> [] then ImportWallet (trustWallet test_ws) [] 60
            else GenerateWallet (trustWallet test_ws) 60) = Inr test_keys"
    by (simp add: test_ws_def fake_twc_def)
  have "fst (StorageService_StoreWallet fake_libs (storage test_ws) (Some ?obj) ?w1) = None"
    by (rule StoreWallet_succeeds)
       (simp_all add: backend_Get_fst record_call_def empty_world_def test_ws_def test_ss_def
          test_key_def NonceSize_def fake_libs_def fake_Marshal_def)
  then obtain w2 where s: "StorageService_StoreWallet fake_libs (storage test_ws) (Some ?obj) ?w1
      = (None, w2)"
    by (cases "StorageService_StoreWallet fake_libs (storage test_ws) (Some ?obj) ?w1") simp
  have "faults w2 = []"
    using StoreWallet_outcome [OF s] by (auto simp: record_call_def empty_world_def)
  then show ?thesis
    using s by (simp add: CreateWallet_keys [OF n p] test_keys_def empty_world_def)
qed

theorem StoreWallet_duplicate_and_single_write_witness:
  "fst (backend_Get (''wallets/'' @ Name test_wallet) world_w1) = Inr (Some ''{w1}'') \<and>
   fst (StorageService_StoreWallet fake_libs test_ss (Some test_wallet) world_w1)
     = Some (Sentinel storage_ErrWalletExists) \<and>
   kv (snd (StorageService_StoreWallet fake_libs test_ss (Some test_wallet) world_w1))
     = kv world_w1 \<and>
   journal (snd (StorageService_StoreWallet fake_libs test_ss (Some test_wallet) world_w1))
     = [BackendGet ''wallets/w1''] \<and>
   fst (backend_Get (''wallets/'' @ Name test_wallet) empty_world) = Inr None \<and>
   length (encryptionKey test_ss) = 32 \<and>
   2 * NonceSize \<le> length (entropy empty_world) \<and>
   (\<forall>e. json_Marshal fake_libs e \<noteq> None) \<and>
   (tl (faults empty_world) = [] \<or> hd (tl (faults empty_world)) = None) \<and>
   fst (StorageService_StoreWallet fake_libs test_ss (Some test_wallet) empty_world) = None \<and>
   kv (snd (StorageService_StoreWallet fake_libs test_ss (Some test_wallet) empty_world))
     = [(''wallets/w1'', ''{w1}'')] \<and>
   fst (WalletService_CreateWallet fake_libs test_ws ''w1'' 60 [] empty_world)
     = Inr \<lparr>Name = ''w1'', CoinType = 60, Mnemonic = [], PrivateKey = [],
            PublicKey = GetPublicKeyHex [4, 171], Address = ''0xabc'',
            CreatedAt = 1700000000\<rparr> \<and>
   faults (snd (WalletService_CreateWallet fake_libs test_ws ''w1'' 60 [] empty_world)) = [] \<and>
   GenerateWallet (trustWallet test_ws) 0 = Inr test_keys \<and>
   fst (WalletService_CreateWallet fake_libs test_ws ''w1'' 0 []
          (snd (WalletService_CreateWallet fake_libs test_ws ''w1'' 60 [] empty_world)))
     = Inl (Sentinel service_ErrWalletExists)"
proof -
  note T = StoreWallet_duplicate_and_single_write
  have a: "fst (backend_Get (''wallets/'' @ Name test_wallet) world_w1) = Inr (Some ''{w1}'')"
    by (simp add: backend_Get_fst test_wallet_def world_w1_def empty_world_def)
  have b: "fst (backend_Get (''wallets/'' @ Name test_wallet) empty_world) = Inr None"
    by (simp add: backend_Get_fst empty_world_def)
  have c: "length (encryptionKey test_ss) = 32" by (simp add: test_ss_def test_key_def)
  have d: "2 * NonceSize \<le> length (entropy empty_world)"
    by (simp add: NonceSize_def empty_world_def)
  have e: "\<forall>e. json_Marshal fake_libs e \<noteq> None" by (simp add: fake_libs_def fake_Marshal_def)
  have f: "tl (faults empty_world) = [] \<or> hd (tl (faults empty_world)) = None"
    by (simp add: empty_world_def)
  have dup: "fst (StorageService_StoreWallet fake_libs test_ss (Some test_wallet) world_w1)
       = Some (Sentinel storage_ErrWalletExists) \<and>
     kv (snd (StorageService_StoreWallet fake_libs test_ss (Some test_wallet) world_w1))
       = kv world_w1 \<and>
     journal (snd (StorageService_StoreWallet fake_libs test_ss (Some test_wallet) world_w1))
       = [BackendGet ''wallets/w1'']"
    using T [where wallet = test_wallet and w = world_w1 and existing = "''{w1}''"
        and L = fake_libs and ss = test_ss] a
    by (simp add: world_w1_def empty_world_def test_wallet_def)
  have ok: "fst (StorageService_StoreWallet fake_libs test_ss (Some test_wallet) empty_world) = None"
    using T [where wallet = test_wallet and w = empty_world and L = fake_libs and ss = test_ss]
      b c d e f by blast
  have "\<exists>doc encrypted.
         json_Marshal fake_libs encrypted = Some doc \<and>
         fst (encryptWallet fake_libs test_ss test_wallet
                (snd (backend_Get (''wallets/'' @ Name test_wallet) empty_world))) = Inr encrypted \<and>
         kv (snd (StorageService_StoreWallet fake_libs test_ss (Some test_wallet) empty_world))
           = AList.update (''wallets/'' @ Name test_wallet) doc (kv empty_world) \<and>
         journal (snd (StorageService_StoreWallet fake_libs test_ss (Some test_wallet) empty_world))
           = journal empty_world @ [BackendGet (''wallets/'' @ Name test_wallet), GcmSeal, GcmSeal,
                          BackendPut (''wallets/'' @ Name test_wallet) doc]"
    using T [where wallet = test_wallet and w = empty_world and L = fake_libs and ss = test_ss]
      ok by blast
  then obtain doc encrypted where m: "json_Marshal fake_libs encrypted = Some doc"
    and en: "fst (encryptWallet fake_libs test_ss test_wallet
                (snd (backend_Get (''wallets/'' @ Name test_wallet) empty_world))) = Inr encrypted"
    and k: "kv (snd (StorageService_StoreWallet fake_libs test_ss (Some test_wallet) empty_world))
           = AList.update (''wallets/'' @ Name test_wallet) doc (kv empty_world)"
    by blast
  obtain r w' where ew: "encryptWallet fake_libs test_ss test_wallet
                (snd (backend_Get (''wallets/'' @ Name test_wallet) empty_world)) = (r, w')"
    by (cases "encryptWallet fake_libs test_ss test_wallet
                (snd (backend_Get (''wallets/'' @ Name test_wallet) empty_world))")
  have "enc_Name encrypted = ''w1''"
    using encryptWallet_pair [OF ew] en ew by (simp add: test_wallet_def)
  then have "doc = ''{w1}''" using m by (auto simp: fake_libs_def fake_Marshal_def)
  then have kv: "kv (snd (StorageService_StoreWallet fake_libs test_ss (Some test_wallet) empty_world))
     = [(''wallets/w1'', ''{w1}'')]"
    using k by (simp add: empty_world_def test_wallet_def)
  have g: "GenerateWallet (trustWallet test_ws) 0 = Inr test_keys"
    by (simp add: test_ws_def fake_twc_def)
  have second: "fst (WalletService_CreateWallet fake_libs test_ws ''w1'' 0 []
          (snd (WalletService_CreateWallet fake_libs test_ws ''w1'' 60 [] empty_world)))
     = Inl (Sentinel service_ErrWalletExists)"
    using T [where L = fake_libs and ws = test_ws and name = "''w1''" and coinType = 60
        and mnemonic = "[]" and w = empty_world and ?mnemonic2.0 = "[]" and ?coinType2.0 = 0
        and ?keys2.0 = test_keys]
      first_create g
    by simp
  show ?thesis using a b c d e f dup ok kv first_create g second by blast
qed

subsection \<open>The fields of a response\<close>

lemma handleError_fields:
  "handleError err = Inr resp \<Longrightarrow> fst ` set resp \<subseteq> {''error'', ''http_status_code''}"
  by (auto simp: handleError_def ErrorResponse_def split: if_splits)

lemma ErrorResponse_fields: "fst ` set (ErrorResponse msg) = {''error''}"
  by (simp add: ErrorResponse_def)

lemma handleWalletCreate_fields:
  assumes "fst (handleWalletCreate L b data w) = Inr resp"
  shows "map fst resp = [''name'', ''coin_type'', ''address'', ''public_key'', ''created_at'']
         \<or> fst ` set resp \<subseteq> {''error'', ''http_status_code''}"
  using assms
  by (auto simp: handleWalletCreate_def Let_def ErrorResponse_def
        split: option.splits prod.splits sum.splits dest!: handleError_fields)

lemma handleWalletRead_fields:
  assumes "fst (handleWalletRead L b data w) = Inr resp"
  shows "map fst resp = [''name'', ''coin_type'', ''address'', ''public_key'', ''created_at'']
         \<or> fst ` set resp \<subseteq> {''error'', ''http_status_code''}"
  using assms
  by (auto simp: handleWalletRead_def Let_def ErrorResponse_def
        split: option.splits prod.splits sum.splits dest!: handleError_fields)

lemma handleWalletDelete_fields:
  assumes "fst (handleWalletDelete b data w) = Inr resp"
  shows "map fst resp = [''deleted'']
         \<or> fst ` set resp \<subseteq> {''error'', ''http_status_code''}"
  using assms
  by (auto simp: handleWalletDelete_def Let_def ErrorResponse_def
        split: option.splits prod.splits sum.splits dest!: handleError_fields)

lemma handleWalletList_fields:
  assumes "fst (handleWalletList b data w) = Returns (Inr resp)"
  shows "fst ` set resp \<subseteq> {''keys'', ''error'', ''http_status_code''}"
  using assms
  by (auto simp: handleWalletList_def Let_def ErrorResponse_def ListResponse_def
        split: option.splits prod.splits sum.splits go.splits if_splits dest!: handleError_fields)

lemma handleWalletSign_fields:
  assumes "fst (handleWalletSign L b data w) = Inr resp"
  shows "map fst resp = [''signed_tx'']
         \<or> fst ` set resp \<subseteq> {''error'', ''http_status_code''}"
  using assms
  by (auto simp: handleWalletSign_def Let_def ErrorResponse_def
        split: option.splits prod.splits sum.splits if_splits dest!: handleError_fields)

lemma handleWalletAddress_fields:
  assumes "fst (handleWalletAddress L b data w) = Inr resp"
  shows "map fst resp = [''address'', ''coin_type'']
         \<or> fst ` set resp \<subseteq> {''error'', ''http_status_code''}"
  using assms
  by (auto simp: handleWalletAddress_def Let_def ErrorResponse_def
        split: option.splits prod.splits sum.splits if_splits dest!: handleError_fields)

lemma CreateWallet_projection:
  assumes "fst (WalletService_CreateWallet L ws name coinType mnemonic w) = Inr wallet"
  shows "Mnemonic wallet = [] \<and> PrivateKey wallet = []"
  using assms
  by (auto simp: WalletService_CreateWallet_def Let_def
        split: option.splits prod.splits sum.splits if_splits)


text \<open>
  Claim C3. Whatever the request and the world, a response of any of the six handlers
  (create or import, read, delete, list, sign, address), be it a success or an error
  response, has no field named \<open>mnemonic\<close> and none named \<open>private_key\<close>. A response
  of the create handler that is not an error response has exactly the fields \<open>name\<close>,
  \<open>coin_type\<close>, \<open>address\<close>, \<open>public_key\<close> and \<open>created_at\<close>, and the record that
  \<open>WalletService.CreateWallet\<close> returns has an empty mnemonic and no private key.
\<close>

theorem responses_carry_no_secret_fields:
  "(\<forall>resp. fst (handleWalletCreate L b data w) = Inr resp \<longrightarrow>
      ''mnemonic'' \<notin> fst ` set resp \<and> ''private_key'' \<notin> fst ` set resp \<and>
      (map fst resp = [''name'', ''coin_type'', ''address'', ''public_key'', ''created_at'']
       \<or> fst ` set resp \<subseteq> {''error'', ''http_status_code''})) \<and>
   (\<forall>resp. fst (handleWalletRead L b data w) = Inr resp \<longrightarrow>
      ''mnemonic'' \<notin> fst ` set resp \<and> ''private_key'' \<notin> fst ` set resp) \<and>
   (\<forall>resp. fst (handleWalletDelete b data w) = Inr resp \<longrightarrow>
      ''mnemonic'' \<notin> fst ` set resp \<and> ''private_key'' \<notin> fst ` set resp) \<and>
   (\<forall>resp. fst (handleWalletList b data w) = Returns (Inr resp) \<longrightarrow>
      ''mnemonic'' \<notin> fst ` set resp \<and> ''private_key'' \<notin> fst ` set resp) \<and>
   (\<forall>resp. fst (handleWalletSign L b data w) = Inr resp \<longrightarrow>
      ''mnemonic'' \<notin> fst ` set resp \<and> ''private_key'' \<notin> fst ` set resp) \<and>
   (\<forall>resp. fst (handleWalletAddress L b data w) = Inr resp \<longrightarrow>
      ''mnemonic'' \<notin> fst ` set resp \<and> ''private_key'' \<notin> fst ` set resp) \<and>
   (\<forall>wallet. fst (WalletService_CreateWallet L ws name coinType mnemonic w) = Inr wallet \<longrightarrow>
      Mnemonic wallet = [] \<and> PrivateKey wallet = [])"
proof -
  have k: "''mnemonic'' \<notin> fst ` set resp \<and> ''private_key'' \<notin> fst ` set resp"
    if "map fst resp = ks \<or> fst ` set resp \<subseteq> {''error'', ''http_status_code''}"
      and "''mnemonic'' \<notin> set ks" and "''private_key'' \<notin> set ks" for resp :: Response and ks
  proof -
    from that(1) show ?thesis
    proof
      assume m: "map fst resp = ks"
      have "fst ` set resp = set (map fst resp)" by simp
      then have "fst ` set resp = set ks" by (simp only: m)
      then show ?thesis using that(2,3) by simp
    next
      assume "fst ` set resp \<subseteq> {''error'', ''http_status_code''}"
      then show ?thesis by auto
    qed
  qed
  have c: "\<forall>resp. fst (handleWalletCreate L b data w) = Inr resp \<longrightarrow>
      ''mnemonic'' \<notin> fst ` set resp \<and> ''private_key'' \<notin> fst ` set resp \<and>
      (map fst resp = [''name'', ''coin_type'', ''address'', ''public_key'', ''created_at'']
       \<or> fst ` set resp \<subseteq> {''error'', ''http_status_code''})"
    using handleWalletCreate_fields [of L b data w]
      k [of _ "[''name'', ''coin_type'', ''address'', ''public_key'', ''created_at'']"]
    by simp
  have r: "\<forall>resp. fst (handleWalletRead L b data w) = Inr resp \<longrightarrow>
      ''mnemonic'' \<notin> fst ` set resp \<and> ''private_key'' \<notin> fst ` set resp"
    using handleWalletRead_fields [of L b data w]
      k [of _ "[''name'', ''coin_type'', ''address'', ''public_key'', ''created_at'']"]
    by simp
  have d: "\<forall>resp. fst (handleWalletDelete b data w) = Inr resp \<longrightarrow>
      ''mnemonic'' \<notin> fst ` set resp \<and> ''private_key'' \<notin> fst ` set resp"
    using handleWalletDelete_fields [of b data w] k [of _ "[''deleted'']"] by simp
  have l: "\<forall>resp. fst (handleWalletList b data w) = Returns (Inr resp) \<longrightarrow>
      ''mnemonic'' \<notin> fst ` set resp \<and> ''private_key'' \<notin> fst ` set resp"
    using handleWalletList_fields [of b data w] by auto
  have s: "\<forall>resp. fst (handleWalletSign L b data w) = Inr resp \<longrightarrow>
      ''mnemonic'' \<notin> fst ` set resp \<and> ''private_key'' \<notin> fst ` set resp"
    using handleWalletSign_fields [of L b data w] k [of _ "[''signed_tx'']"] by simp
  have a: "\<forall>resp. fst (handleWalletAddress L b data w) = Inr resp \<longrightarrow>
      ''mnemonic'' \<notin> fst ` set resp \<and> ''private_key'' \<notin> fst ` set resp"
    using handleWalletAddress_fields [of L b data w] k [of _ "[''address'', ''coin_type'']"]
    by simp
  have p: "\<forall>wallet. fst (WalletService_CreateWallet L ws name coinType mnemonic w) = Inr wallet
      \<longrightarrow> Mnemonic wallet = [] \<and> PrivateKey wallet = []"
    using CreateWallet_projection by blast
  show ?thesis by (intro conjI) (rule c r d l s a p)+
qed

lemma create_request:
  "fst (handleWalletCreate fake_libs test_backend
          (no_fields\<lparr>fd_name := ''w1'', fd_coin_type := Some 60\<rparr>) empty_world)
     = Inr [(''name'', VString ''w1''), (''coin_type'', VUint32 60),
            (''address'', VString ''0xabc''),
            (''public_key'', VString (GetPublicKeyHex [4, 171])),
            (''created_at'', VTime 1700000000)]"
proof -
  have v: "validateCoinType 60 = None" by (simp add: validateCoinType_def)
  obtain w1 where c: "WalletService_CreateWallet fake_libs test_ws ''w1'' 60 [] empty_world
      = (Inr \<lparr>Name = ''w1'', CoinType = 60, Mnemonic = [], PrivateKey = [],
            PublicKey = GetPublicKeyHex [4, 171], Address = ''0xabc'',
            CreatedAt = 1700000000\<rparr>, w1)"
    using first_create
    by (cases "WalletService_CreateWallet fake_libs test_ws ''w1'' 60 [] empty_world") auto
  show ?thesis
    by (simp add: handleWalletCreate_def Let_def no_fields_def validate_w1 v test_backend_def c)
qed

theorem responses_carry_no_secret_fields_witness:
  "fst (handleWalletCreate fake_libs test_backend
          (no_fields\<lparr>fd_name := ''w1'', fd_coin_type := Some 60\<rparr>) empty_world)
     = Inr [(''name'', VString ''w1''), (''coin_type'', VUint32 60),
            (''address'', VString ''0xabc''),
            (''public_key'', VString (GetPublicKeyHex [4, 171])),
            (''created_at'', VTime 1700000000)] \<and>
   ''mnemonic'' \<notin> fst ` set [(''name'', VString ''w1''), (''coin_type'', VUint32 60),
            (''address'', VString ''0xabc''),
            (''public_key'', VString (GetPublicKeyHex [4, 171])),
            (''created_at'', VTime 1700000000)] \<and>
   ''private_key'' \<notin> fst ` set [(''name'', VString ''w1''), (''coin_type'', VUint32 60),
            (''address'', VString ''0xabc''),
            (''public_key'', VString (GetPublicKeyHex [4, 171])),
            (''created_at'', VTime 1700000000)]"
proof -
  note T = responses_carry_no_secret_fields [where L = fake_libs and b = test_backend
      and data = "no_fields\<lparr>fd_name := ''w1'', fd_coin_type := Some 60\<rparr>" and w = empty_world]
  from T have "\<forall>resp. fst (handleWalletCreate fake_libs test_backend
          (no_fields\<lparr>fd_name := ''w1'', fd_coin_type := Some 60\<rparr>) empty_world) = Inr resp \<longrightarrow>
      ''mnemonic'' \<notin> fst ` set resp \<and> ''private_key'' \<notin> fst ` set resp \<and>
      (map fst resp = [''name'', ''coin_type'', ''address'', ''public_key'', ''created_at'']
       \<or> fst ` set resp \<subseteq> {''error'', ''http_status_code''})" by (rule conjunct1)
  from this [rule_format, OF create_request] create_request show ?thesis by simp
qed

end
